theory Spec2Isabelle
  imports Complex_Main "HOL-Library.Multiset"
begin

section \<open>Random source and \<open>shuffleArray\<close>\<close>

text \<open>
  The program draws its randomness from \<open>Math.random()\<close>. The model threads an explicit
  source of draws: a list of naturals, consumed from the front. The expression
  \<open>Math.floor(Math.random() * n)\<close> (for \<open>n \<ge> 1\<close>) is some integer in \<open>0..n-1\<close>; the model
  reduces the next draw into that range. An exhausted source keeps answering \<open>0\<close>, which is
  one of the values the real generator may return, so every run of the model is a run of
  the program and every finite run of the program is a run of the model.
\<close>

type_synonym rng = "nat list"

fun random_below :: "nat \<Rightarrow> rng \<Rightarrow> nat \<times> rng" where
  "random_below n [] = (0, [])"
| "random_below n (r # g) = (r mod n, g)"

text \<open>
  \<^verbatim>\<open>
  const shuffleArray = <T,>(array: T[]): T[] => {
      const newArray = [...array];
      for (let i = newArray.length - 1; i > 0; i--) {
          const j = Math.floor(Math.random() * (i + 1));
          [newArray[i], newArray[j]] = [newArray[j], newArray[i]];
      }
      return newArray;
  };
  \<close>
  The loop counts \<open>i\<close> down from \<open>length - 1\<close> to \<open>1\<close>; \<open>shuffle_loop i\<close> is the loop
  entered with that value of \<open>i\<close>. The destructuring assignment reads both cells first and
  then writes index \<open>i\<close>, then index \<open>j\<close>.
\<close>

fun shuffle_loop :: "nat \<Rightarrow> rng \<Rightarrow> 'a list \<Rightarrow> 'a list \<times> rng" where
  "shuffle_loop 0 g newArray = (newArray, g)"
| "shuffle_loop (Suc k) g newArray =
     (case random_below (Suc k + 1) g of
        (j, g') \<Rightarrow>
          shuffle_loop k g' (newArray[Suc k := newArray ! j, j := newArray ! Suc k]))"

definition shuffleArray :: "rng \<Rightarrow> 'a list \<Rightarrow> 'a list \<times> rng" where
  "shuffleArray g array = shuffle_loop (length array - 1) g array"

subsection \<open>The same function on a store of arrays\<close>

text \<open>
  JavaScript arrays are mutable objects reached through references. To speak about the
  caller's array not being written to, the function is also modelled on an explicit store:
  addresses are naturals, \<open>cells\<close> gives the array held at an address and \<open>next_free\<close> is
  the first address not yet allocated. \<open>[...array]\<close> allocates a fresh array holding a copy;
  every write of the loop goes to that fresh address.
\<close>

record 'a store =
  cells :: "nat \<Rightarrow> 'a list"
  next_free :: nat

fun shuffle_loop_st :: "nat \<Rightarrow> rng \<Rightarrow> nat \<Rightarrow> 'a store \<Rightarrow> 'a store \<times> rng" where
  "shuffle_loop_st 0 g newArray s = (s, g)"
| "shuffle_loop_st (Suc k) g newArray s =
     (case random_below (Suc k + 1) g of
        (j, g') \<Rightarrow>
          shuffle_loop_st k g' newArray
            (s\<lparr>cells := (cells s)
                (newArray := (cells s newArray)
                   [Suc k := cells s newArray ! j, j := cells s newArray ! Suc k])\<rparr>))"

definition shuffleArray_st :: "rng \<Rightarrow> nat \<Rightarrow> 'a store \<Rightarrow> nat \<times> 'a store \<times> rng" where
  "shuffleArray_st g array s =
     (let newArray = next_free s;
          s1 = s\<lparr>cells := (cells s)(newArray := cells s array), next_free := Suc newArray\<rparr>
      in case shuffle_loop_st (length (cells s1 newArray) - 1) g newArray s1 of
           (s2, g') \<Rightarrow> (newArray, s2, g'))"

section \<open>Data model\<close>

text \<open>
  Strings are byte strings (UTF-8). JavaScript numbers that the program only counts with
  or compares (ids, counters, XP, levels, timestamps in milliseconds) are integers.

  \<^verbatim>\<open>id: number | string\<close>: an identifier is a number or a string. Used as a property key
  of \<open>wordStats\<close> it is converted to a string, so the number \<open>7\<close> and the string \<open>"7"\<close> name
  the same record there, while \<open>===\<close> tells them apart.
\<close>

datatype word_id = NumId int | StrId string

fun string_of_nat :: "nat \<Rightarrow> string" where
  "string_of_nat n =
     (if n < 10 then [char_of (48 + n)]
      else string_of_nat (n div 10) @ [char_of (48 + n mod 10)])"

declare string_of_nat.simps [simp del]

definition String_of_number :: "int \<Rightarrow> string" where
  "String_of_number i =
     (if i < 0 then CHR ''-'' # string_of_nat (nat (- i)) else string_of_nat (nat i))"

fun prop_key :: "word_id \<Rightarrow> string" where
  "prop_key (NumId n) = String_of_number n"
| "prop_key (StrId s) = s"

datatype unit_value = UnitNum int | UnitStr string

text \<open>
  \<^verbatim>\<open>
  export interface Word {
      id: number | string; term: string; pronunciation?: string; partOfSpeech: string;
      meaning: string; exampleSentence: string; exampleSentenceMeaning?: string;
      gradeLevel: string; isCustom?: boolean; unit?: string | number;
  }
  export interface WordStat {
      id: number | string; isMastered: boolean; lastReviewed: string | null;
      quizIncorrectCount: number;
  }
  \<close>
  The fields \<open>id\<close>, \<open>term\<close> and \<open>unit\<close> carry a suffix because the plain names are taken.
\<close>

record Word =
  id_w :: word_id
  term_w :: string
  pronunciation :: "string option"
  partOfSpeech :: string
  meaning :: string
  exampleSentence :: string
  exampleSentenceMeaning :: "string option"
  gradeLevel :: string
  isCustom :: "bool option"
  unit_w :: "unit_value option"

record WordStat =
  id_s :: word_id
  isMastered :: bool
  lastReviewed :: "string option"
  quizIncorrectCount :: int

type_synonym WordStats = "string \<rightharpoonup> WordStat"

definition getDefaultWordStat :: "word_id \<Rightarrow> WordStat" where
  "getDefaultWordStat wordId =
     \<lparr>id_s = wordId, isMastered = False, lastReviewed = None, quizIncorrectCount = 0\<rparr>"

text \<open>\<^verbatim>\<open>wordStats[wordId] || getDefaultWordStat(wordId)\<close>: a stored record is an object, hence truthy.\<close>

definition getWordStat :: "WordStats \<Rightarrow> word_id \<Rightarrow> WordStat" where
  "getWordStat wordStats wordId =
     (case wordStats (prop_key wordId) of
        Some stat \<Rightarrow> stat
      | None \<Rightarrow> getDefaultWordStat wordId)"

text \<open>\<^verbatim>\<open>s.split('T')[0]\<close>: the part of \<open>s\<close> before its first \<open>T\<close> (all of \<open>s\<close> when it has none).\<close>

definition split_T0 :: "string \<Rightarrow> string" where
  "split_T0 s = takeWhile (\<lambda>c. c \<noteq> CHR ''T'') s"

text \<open>
  Truthiness of \<^verbatim>\<open>string | null\<close>: \<open>null\<close> and the empty string are falsy.
\<close>

fun truthy :: "string option \<Rightarrow> bool" where
  "truthy None = False"
| "truthy (Some s) = (s \<noteq> [])"

text \<open>Truthiness of \<^verbatim>\<open>isCustom?: boolean\<close>: only \<open>true\<close> is truthy.\<close>

fun is_custom :: "Word \<Rightarrow> bool" where
  "is_custom w = (isCustom w = Some True)"

section \<open>Selection engine: \<open>selectWords\<close>\<close>

text \<open>
  \<^verbatim>\<open>array.slice(0, e)\<close> for an integer \<open>e\<close>: a negative \<open>e\<close> counts from the end of the
  array.
\<close>

definition slice0 :: "int \<Rightarrow> 'a list \<Rightarrow> 'a list" where
  "slice0 e xs =
     (if e < 0 then take (nat (int (length xs) + e)) xs else take (nat e) xs)"

text \<open>
  \<^verbatim>\<open>
  const today = getTodayDateString();
  let eligibleWords = words.filter(w => {
      const stat = getWordStat(w.id);
      return w.gradeLevel === userSettings.grade && !stat.isMastered;
  });
  if (forQuickReview) {
      eligibleWords = eligibleWords.filter(w => {
          const stat = getWordStat(w.id);
          return stat.lastReviewed && stat.lastReviewed.split('T')[0] !== today;
      });
  } else {
       eligibleWords = eligibleWords.filter(w => {
          const stat = getWordStat(w.id);
          return !stat.lastReviewed || stat.lastReviewed.split('T')[0] !== today;
       });
  }
  \<close>
  \<open>today\<close> is what \<open>getTodayDateString()\<close> returned, the date part of the current time in ISO
  format.
\<close>

definition reviewed_other_day :: "string \<Rightarrow> WordStat \<Rightarrow> bool" where
  "reviewed_other_day today stat =
     (case lastReviewed stat of
        None \<Rightarrow> False
      | Some d \<Rightarrow> d \<noteq> [] \<and> split_T0 d \<noteq> today)"

definition not_reviewed_today :: "string \<Rightarrow> WordStat \<Rightarrow> bool" where
  "not_reviewed_today today stat =
     (case lastReviewed stat of
        None \<Rightarrow> True
      | Some d \<Rightarrow> d = [] \<or> split_T0 d \<noteq> today)"

definition eligibleWords :: "Word list \<Rightarrow> WordStats \<Rightarrow> string \<Rightarrow> string \<Rightarrow> bool \<Rightarrow> Word list" where
  "eligibleWords words wordStats grade today forQuickReview =
     (let eligible =
            filter (\<lambda>w. gradeLevel w = grade \<and> \<not> isMastered (getWordStat wordStats (id_w w))) words
      in if forQuickReview
         then filter (\<lambda>w. reviewed_other_day today (getWordStat wordStats (id_w w))) eligible
         else filter (\<lambda>w. not_reviewed_today today (getWordStat wordStats (id_w w))) eligible)"

text \<open>
  \<^verbatim>\<open>
  eligibleWords.sort((a, b) => {
      const statA = getWordStat(a.id);
      const statB = getWordStat(b.id);
      if (statB.quizIncorrectCount !== statA.quizIncorrectCount)
          return statB.quizIncorrectCount - statA.quizIncorrectCount;
      const dateA = statA.lastReviewed ? new Date(statA.lastReviewed).getTime() : 0;
      const dateB = statB.lastReviewed ? new Date(statB.lastReviewed).getTime() : 0;
      if (dateA !== dateB) return dateA - dateB; // Older words first
      if (a.isCustom && !b.isCustom) return -1; // Custom words first
      if (!a.isCustom && b.isCustom) return 1;
      return 0;
  });
  return shuffleArray(eligibleWords).slice(0, count);
  \<close>
  \<open>getTime\<close> stands for \<open>new Date(s).getTime()\<close>, the parsing of a timestamp by the
  platform. \<open>Array.prototype.sort\<close> is stable; the comparator orders by three keys in turn,
  so the result is the stable sort, computed here by insertion from the right.
\<close>

definition compareWords :: "(string \<Rightarrow> int) \<Rightarrow> WordStats \<Rightarrow> Word \<Rightarrow> Word \<Rightarrow> int" where
  "compareWords getTime wordStats a b =
     (let statA = getWordStat wordStats (id_w a);
          statB = getWordStat wordStats (id_w b)
      in if quizIncorrectCount statB \<noteq> quizIncorrectCount statA
         then quizIncorrectCount statB - quizIncorrectCount statA
         else
           let dateA = (if truthy (lastReviewed statA) then getTime (the (lastReviewed statA)) else 0);
               dateB = (if truthy (lastReviewed statB) then getTime (the (lastReviewed statB)) else 0)
           in if dateA \<noteq> dateB then dateA - dateB
              else if is_custom a \<and> \<not> is_custom b then - 1
              else if \<not> is_custom a \<and> is_custom b then 1
              else 0)"

fun insert_sorted :: "('a \<Rightarrow> 'a \<Rightarrow> int) \<Rightarrow> 'a \<Rightarrow> 'a list \<Rightarrow> 'a list" where
  "insert_sorted cmp x [] = [x]"
| "insert_sorted cmp x (y # ys) =
     (if cmp x y \<le> 0 then x # y # ys else y # insert_sorted cmp x ys)"

definition sort_with :: "('a \<Rightarrow> 'a \<Rightarrow> int) \<Rightarrow> 'a list \<Rightarrow> 'a list" where
  "sort_with cmp xs = foldr (insert_sorted cmp) xs []"

definition selectWords ::
  "Word list \<Rightarrow> WordStats \<Rightarrow> string \<Rightarrow> (string \<Rightarrow> int) \<Rightarrow> string \<Rightarrow> rng \<Rightarrow> int \<Rightarrow> bool
     \<Rightarrow> Word list \<times> rng" where
  "selectWords words wordStats grade getTime today g count_w forQuickReview =
     (let sorted_words =
            sort_with (compareWords getTime wordStats)
              (eligibleWords words wordStats grade today forQuickReview)
      in case shuffleArray g sorted_words of
           (shuffled, g') \<Rightarrow> (slice0 count_w shuffled, g'))"

section \<open>Quiz engine: \<open>generateMultipleChoiceOptions\<close>\<close>

text \<open>
  \<open>Array.from(new Set(xs))\<close> keeps the first occurrence of each element, in order of
  insertion.
\<close>

definition Set_add :: "'a list \<Rightarrow> 'a \<Rightarrow> 'a list" where
  "Set_add s x = (if x \<in> set s then s else s @ [x])"

definition new_Set :: "'a list \<Rightarrow> 'a list" where
  "new_Set xs = foldl Set_add [] xs"

text \<open>
  The three placeholder strings of the source are Korean; they are given here by their
  UTF-8 bytes.
\<close>

definition placeholders :: "string list" where
  "placeholders =
     (let placeholder0 =
            [CHR 0xEA, CHR 0xB4, CHR 0x80, CHR 0xEB, CHR 0xA0, CHR 0xA8, CHR 0x20,
             CHR 0xEC, CHR 0x97, CHR 0x86, CHR 0xEC, CHR 0x9D, CHR 0x8C];
          placeholder1 =
            [CHR 0xEB, CHR 0x8B, CHR 0xA4, CHR 0xEB, CHR 0xA5, CHR 0xB8, CHR 0x20,
             CHR 0xEB, CHR 0x9C, CHR 0xBB];
          placeholder2 =
            [CHR 0xEC, CHR 0x98, CHR 0xA4, CHR 0xEB, CHR 0x8B, CHR 0xB5, CHR 0x20,
             CHR 0xEC, CHR 0x98, CHR 0x88, CHR 0xEC, CHR 0x8B, CHR 0x9C]
      in [placeholder0, placeholder1, placeholder2])"

text \<open>
  \<^verbatim>\<open>
  while (uniqueIncorrectOptions.length < 3 && gradeWords.length > uniqueIncorrectOptions.length + 1) {
      const fallbackOption = shuffleArray(gradeWords.filter(w => w.id !== correctWord.id
          && !uniqueIncorrectOptions.includes(w.meaning)
          && w.meaning !== correctWord.meaning))[0]?.meaning;
      if (fallbackOption && !uniqueIncorrectOptions.includes(fallbackOption)) {
          uniqueIncorrectOptions.push(fallbackOption);
      } else {
          break;
      }
  }
  \<close>
  \<open>[0]?.meaning\<close> of an empty array is \<open>undefined\<close>, which is falsy, as is the empty string.
\<close>

function fallback_loop :: "Word list \<Rightarrow> Word \<Rightarrow> rng \<Rightarrow> string list \<Rightarrow> string list \<times> rng" where
  "fallback_loop gradeWords correctWord g uniqueIncorrectOptions =
     (if length uniqueIncorrectOptions < 3 \<and> length gradeWords > length uniqueIncorrectOptions + 1
      then
        (case shuffleArray g
                (filter (\<lambda>w. id_w w \<noteq> id_w correctWord
                              \<and> meaning w \<notin> set uniqueIncorrectOptions
                              \<and> meaning w \<noteq> meaning correctWord) gradeWords) of
           (shuffled, g') \<Rightarrow>
             (case shuffled of
                [] \<Rightarrow> (uniqueIncorrectOptions, g')
              | w # rest \<Rightarrow>
                  if meaning w \<noteq> [] \<and> meaning w \<notin> set uniqueIncorrectOptions
                  then fallback_loop gradeWords correctWord g' (uniqueIncorrectOptions @ [meaning w])
                  else (uniqueIncorrectOptions, g')))
      else (uniqueIncorrectOptions, g))"
  by pat_completeness auto
termination
  by (relation "measure (\<lambda>(gradeWords, correctWord, g, u). 3 - length u)") auto

declare fallback_loop.simps [simp del]

text \<open>
  \<^verbatim>\<open>
  let placeholderIndex = 0;
  while (uniqueIncorrectOptions.length < 3) {
      const placeholder = placeholders[placeholderIndex++];
      if(!uniqueIncorrectOptions.includes(placeholder) && placeholder !== correctWord.meaning) {
           uniqueIncorrectOptions.push(placeholder);
      }
      if (placeholderIndex >= placeholders.length) break;
  }
  \<close>
  The second argument is the part of \<open>placeholders\<close> from \<open>placeholderIndex\<close> on. The loop
  leaves as soon as the index reaches the end, so it never reads past the last placeholder;
  the equation for the empty rest is not reached from the non-empty list of the source.
\<close>

fun placeholder_loop :: "string \<Rightarrow> string list \<Rightarrow> string list \<Rightarrow> string list" where
  "placeholder_loop correctMeaning [] uniqueIncorrectOptions = uniqueIncorrectOptions"
| "placeholder_loop correctMeaning (placeholder # rest) uniqueIncorrectOptions =
     (if length uniqueIncorrectOptions < 3
      then
        (let pushed =
               (if placeholder \<notin> set uniqueIncorrectOptions \<and> placeholder \<noteq> correctMeaning
                then uniqueIncorrectOptions @ [placeholder]
                else uniqueIncorrectOptions)
         in if rest = [] then pushed else placeholder_loop correctMeaning rest pushed)
      else uniqueIncorrectOptions)"

text \<open>
  \<^verbatim>\<open>
  const gradeWords = words.filter(w => w.gradeLevel === userSettings.grade);
  let incorrectMeaningPool = shuffleArray(
      gradeWords
          .filter(w => w.id !== correctWord.id)
          .map(w => w.meaning)
          .filter(meaning => meaning !== correctWord.meaning)
  );
  const uniqueIncorrectOptions = Array.from(new Set(incorrectMeaningPool)).slice(0, 3);
  ... the two loops ...
  const finalGeneratedOptions = shuffleArray([correctWord.meaning, ...uniqueIncorrectOptions.slice(0,3)]);
  setOptions(finalGeneratedOptions);
  \<close>
  The model returns the list handed to \<open>setOptions\<close>.
\<close>

definition generateMultipleChoiceOptions ::
  "Word list \<Rightarrow> string \<Rightarrow> rng \<Rightarrow> Word \<Rightarrow> string list \<times> rng" where
  "generateMultipleChoiceOptions words grade g correctWord =
     (let gradeWords = filter (\<lambda>w. gradeLevel w = grade) words
      in case shuffleArray g
                (filter (\<lambda>m. m \<noteq> meaning correctWord)
                   (map meaning (filter (\<lambda>w. id_w w \<noteq> id_w correctWord) gradeWords))) of
           (incorrectMeaningPool, g1) \<Rightarrow>
             (case fallback_loop gradeWords correctWord g1
                     (slice0 3 (new_Set incorrectMeaningPool)) of
                (afterFallback, g2) \<Rightarrow>
                  shuffleArray g2
                    (meaning correctWord
                       # slice0 3 (placeholder_loop (meaning correctWord) placeholders afterFallback))))"

section \<open>Gamification: \<open>calculateXPLevel\<close> and \<open>addXp\<close>\<close>

text \<open>
  \<^verbatim>\<open>
  const calculateXPLevel = (xp: number) => {
      let level = 1;
      let xpForNext = 100;
      let cumulativeXpForLevel = 0;
      while (xp >= cumulativeXpForLevel + xpForNext) {
          cumulativeXpForLevel += xpForNext;
          level++;
          xpForNext = level * 100;
      }
      return { level, currentLevelXp: xp - cumulativeXpForLevel, xpForNextLevel: xpForNext };
  };
  \<close>
  The result object is the triple \<open>(level, currentLevelXp, xpForNextLevel)\<close>.
\<close>

function calculateXPLevel_loop :: "int \<Rightarrow> int \<Rightarrow> int \<Rightarrow> int \<Rightarrow> int \<times> int \<times> int" where
  "calculateXPLevel_loop xp level xpForNext cumulativeXpForLevel =
     (if xp \<ge> cumulativeXpForLevel + xpForNext
      then calculateXPLevel_loop xp (level + 1) ((level + 1) * 100)
             (cumulativeXpForLevel + xpForNext)
      else (level, xp - cumulativeXpForLevel, xpForNext))"
  by pat_completeness auto
termination
  by (relation "measures [\<lambda>(xp, level, xpForNext, c). nat (- level),
                          \<lambda>(xp, level, xpForNext, c). if xpForNext \<le> 0 then 1 else 0,
                          \<lambda>(xp, level, xpForNext, c). nat (xp - c)]") auto

declare calculateXPLevel_loop.simps [simp del]

definition calculateXPLevel :: "int \<Rightarrow> int \<times> int \<times> int" where
  "calculateXPLevel xp = calculateXPLevel_loop xp 1 100 0"

text \<open>
  The level curve in the words of the specification: the cumulative XP
  \<open>100 + 200 + ... + 100 n\<close>. Being at level \<open>n\<close> means
  \<open>spec_cumulative_xp (n - 1) \<le> xp < spec_cumulative_xp n\<close>.
\<close>

definition spec_cumulative_xp :: "nat \<Rightarrow> int" where
  "spec_cumulative_xp n = (\<Sum>k = 1..n. 100 * int k)"

section \<open>Application state\<close>

text \<open>
  \<^verbatim>\<open>
  export interface UserSettings {
      grade: string; textbook: string; dailyGoal: number; username: string;
      theme: 'dark' | 'light'; speechRate: number; autoPlayAudio: boolean;
      xp: number; level: number;
  }
  \<close>
\<close>

datatype theme = Dark | Light

record UserSettings =
  grade :: string
  textbook :: string
  dailyGoal :: int
  username :: string
  theme :: theme
  speechRate :: real
  autoPlayAudio :: bool
  xp :: int
  level :: int

record LearningStreak =
  currentStreak :: int
  bestStreak :: int
  lastLearnedDate :: string

text \<open>
  The state of the \<open>App\<close> component that the handlers below read and write. Every
  handler is modelled as a function from the state it was called in to the state after
  its updates have been applied. Toast notifications are presentation and are left out.
\<close>

record AppState =
  userSettings :: "UserSettings option"
  allWords :: "Word list"
  wordStats :: WordStats
  learnedWordsTodayCount :: int
  totalWordsLearnedOverall :: int
  learningStreak :: LearningStreak

text \<open>
  \<^verbatim>\<open>
  const addXp = useCallback((amount: number) => {
      setUserSettings(prevSettings => {
          if (!prevSettings) return null;
          const newXp = (prevSettings.xp || 0) + amount;
          const { level: newLevel } = calculateXPLevel(newXp);
          ...
          return { ...prevSettings, xp: newXp, level: newLevel };
      });
  }, [addToast]);
  \<close>
  For a number \<open>x\<close> that is an integer, \<open>x || 0\<close> is \<open>x\<close>.
\<close>

definition addXp :: "int \<Rightarrow> AppState \<Rightarrow> AppState" where
  "addXp amount st =
     st\<lparr>userSettings :=
          (case userSettings st of
             None \<Rightarrow> None
           | Some prevSettings \<Rightarrow>
               (let newXp = xp prevSettings + amount;
                    newLevel = fst (calculateXPLevel newXp)
                in Some (prevSettings\<lparr>xp := newXp, level := newLevel\<rparr>)))\<rparr>"

text \<open>
  \<^verbatim>\<open>
  const updateWordStat = (wordId, newStatData: Partial<Omit<WordStat, 'id'>>) => {
      setWordStats(prevStats => ({
          ...prevStats,
          [wordId]: { ...(prevStats[wordId] || getDefaultWordStat(wordId)), ...newStatData, id: wordId }
      }));
  };
  \<close>
  Spreading the partial record \<open>newStatData\<close> over a record overwrites the fields it holds:
  it is modelled as the function that does so.
\<close>

definition updateWordStat :: "word_id \<Rightarrow> (WordStat \<Rightarrow> WordStat) \<Rightarrow> AppState \<Rightarrow> AppState" where
  "updateWordStat wordId newStatData st =
     st\<lparr>wordStats :=
          (wordStats st)(prop_key wordId \<mapsto>
             (newStatData (getWordStat (wordStats st) wordId))\<lparr>id_s := wordId\<rparr>)\<rparr>"

section \<open>Progress and streak: \<open>onWordLearned\<close> and the correction at load\<close>

text \<open>
  \<^verbatim>\<open>
  setLearningStreak(prevStreak => {
      const newCurrentStreak = prevStreak.lastLearnedDate === today
          ? prevStreak.currentStreak
          : (prevStreak.lastLearnedDate === new Date(new Date().setDate(new Date().getDate() - 1))
                                              .toISOString().split('T')[0]
              ? prevStreak.currentStreak + 1
              : 1);
      return {
          currentStreak: newCurrentStreak,
          bestStreak: Math.max(prevStreak.bestStreak, newCurrentStreak),
          lastLearnedDate: today
      };
  });
  \<close>
  \<open>yesterday\<close> is the date string the clock expression evaluates to.
\<close>

definition streak_after_learning :: "string \<Rightarrow> string \<Rightarrow> LearningStreak \<Rightarrow> LearningStreak" where
  "streak_after_learning today yesterday prevStreak =
     (let newCurrentStreak =
            (if lastLearnedDate prevStreak = today then currentStreak prevStreak
             else if lastLearnedDate prevStreak = yesterday then currentStreak prevStreak + 1
             else 1)
      in \<lparr>currentStreak = newCurrentStreak,
          bestStreak = max (bestStreak prevStreak) newCurrentStreak,
          lastLearnedDate = today\<rparr>)"

text \<open>
  \<^verbatim>\<open>
  const onWordLearned = (wordId: string | number, isQuickReview: boolean = false) => {
      const today = getTodayDateString();
      const stat = wordStats[wordId] || getDefaultWordStat(wordId);
      const wasLearnedTodayForTheFirstTime =
          !stat.lastReviewed || stat.lastReviewed.split('T')[0] !== today;
      updateWordStat(wordId, { lastReviewed: new Date().toISOString() });
      if (wasLearnedTodayForTheFirstTime && !isQuickReview) {
          setLearnedWordsTodayCount(prev => prev + 1);
          setTotalWordsLearnedOverall(prev => prev + 1);
          addXp(5);
          setLearningStreak(...);
      } else if (isQuickReview) {
           addXp(1);
      }
  };
  \<close>
  The three readings of the clock are arguments: \<open>today\<close> (from \<open>getTodayDateString()\<close>),
  \<open>now\<close> (from \<open>new Date().toISOString()\<close>) and \<open>yesterday\<close>.
\<close>

definition onWordLearned ::
  "string \<Rightarrow> string \<Rightarrow> string \<Rightarrow> word_id \<Rightarrow> bool \<Rightarrow> AppState \<Rightarrow> AppState" where
  "onWordLearned today now yesterday wordId isQuickReview st =
     (let stat = getWordStat (wordStats st) wordId;
          wasLearnedTodayForTheFirstTime = not_reviewed_today today stat;
          st1 = updateWordStat wordId (\<lambda>s. s\<lparr>lastReviewed := Some now\<rparr>) st
      in if wasLearnedTodayForTheFirstTime \<and> \<not> isQuickReview
         then
           (let st2 = st1\<lparr>learnedWordsTodayCount := learnedWordsTodayCount st1 + 1\<rparr>;
                st3 = st2\<lparr>totalWordsLearnedOverall := totalWordsLearnedOverall st2 + 1\<rparr>;
                st4 = addXp 5 st3
            in st4\<lparr>learningStreak := streak_after_learning today yesterday (learningStreak st4)\<rparr>)
         else if isQuickReview then addXp 1 st1
         else st1)"

text \<open>
  \<^verbatim>\<open>
  if (storedStreak) {
      const parsedStreak = JSON.parse(storedStreak);
      if (parsedStreak.lastLearnedDate !== today) {
           const yesterday = new Date();
           yesterday.setDate(yesterday.getDate() - 1);
           if (parsedStreak.lastLearnedDate !== yesterday.toISOString().split('T')[0]) {
              setLearningStreak({ ...parsedStreak, currentStreak: 0 });
           } else {
              setLearningStreak(parsedStreak);
           }
      } else {
           setLearningStreak(parsedStreak);
      }
  } else {
      setLearningStreak({ currentStreak: 0, bestStreak: 0, lastLearnedDate: '' });
  }
  \<close>
\<close>

definition load_learningStreak :: "string \<Rightarrow> string \<Rightarrow> LearningStreak option \<Rightarrow> LearningStreak" where
  "load_learningStreak today yesterday storedStreak =
     (case storedStreak of
        Some parsedStreak \<Rightarrow>
          if lastLearnedDate parsedStreak \<noteq> today
          then (if lastLearnedDate parsedStreak \<noteq> yesterday
                then parsedStreak\<lparr>currentStreak := 0\<rparr>
                else parsedStreak)
          else parsedStreak
      | None \<Rightarrow> \<lparr>currentStreak = 0, bestStreak = 0, lastLearnedDate = []\<rparr>)"

text \<open>
  One step of the application, as far as the streak is concerned. A save effect writes
  \<open>learningStreak\<close> to storage whenever it changes, so the streak found in storage at a
  load is the streak of the state before it; what a load does to the rest of the state is
  left open.
\<close>

inductive app_step :: "AppState \<Rightarrow> AppState \<Rightarrow> bool" where
  word_learned:
    "app_step st (onWordLearned today now yesterday wordId isQuickReview st)"
| load_correction:
    "learningStreak st' = load_learningStreak today yesterday (Some (learningStreak st))
     \<Longrightarrow> app_step st st'"

section \<open>Custom words: \<open>onSaveCustomWord\<close>\<close>

text \<open>
  \<open>String.prototype.trim\<close> and \<open>String.prototype.toLowerCase\<close> are functions of the
  platform, defined over all of Unicode (\<open>trim\<close> strips every white space and line
  terminator character, \<open>toLowerCase\<close> lowers every cased letter). The handler takes them
  as the arguments \<open>trim\<close> and \<open>toLowerCase\<close>, and what is proved of it holds for whatever
  these two functions are.
\<close>

text \<open>\<open>Partial<Word>\<close>: every field may be absent.\<close>

record WordData =
  id_d :: "word_id option"
  term_d :: "string option"
  pronunciation_d :: "string option"
  partOfSpeech_d :: "string option"
  meaning_d :: "string option"
  exampleSentence_d :: "string option"
  exampleSentenceMeaning_d :: "string option"
  gradeLevel_d :: "string option"
  isCustom_d :: "bool option"
  unit_d :: "unit_value option"

text \<open>\<^verbatim>\<open>!field?.trim()\<close>: the field is absent, or empty once trimmed.\<close>

fun blank :: "(string \<Rightarrow> string) \<Rightarrow> string option \<Rightarrow> bool" where
  "blank trim None = True"
| "blank trim (Some s) = (trim s = [])"

text \<open>Truthiness of \<^verbatim>\<open>wordData.id\<close>: absent, \<open>0\<close> and the empty string are falsy.\<close>

fun id_truthy :: "word_id option \<Rightarrow> bool" where
  "id_truthy None = False"
| "id_truthy (Some (NumId n)) = (n \<noteq> 0)"
| "id_truthy (Some (StrId s)) = (s \<noteq> [])"

text \<open>\<open>allWords.findIndex(p)\<close>, with \<open>None\<close> for \<open>-1\<close>.\<close>

fun findIndex :: "('a \<Rightarrow> bool) \<Rightarrow> 'a list \<Rightarrow> nat option" where
  "findIndex p [] = None"
| "findIndex p (x # xs) = (if p x then Some 0 else map_option Suc (findIndex p xs))"

text \<open>\<open>{ ...w, ...wordData }\<close>: the fields present in \<open>wordData\<close> replace those of \<open>w\<close>.\<close>

definition or_else :: "'a option \<Rightarrow> 'a \<Rightarrow> 'a" where
  "or_else d v = (case d of Some x \<Rightarrow> x | None \<Rightarrow> v)"

definition or_else_opt :: "'a option \<Rightarrow> 'a option \<Rightarrow> 'a option" where
  "or_else_opt d v = (case d of Some x \<Rightarrow> Some x | None \<Rightarrow> v)"

definition spread_WordData :: "Word \<Rightarrow> WordData \<Rightarrow> Word" where
  "spread_WordData w d =
     \<lparr>id_w = or_else (id_d d) (id_w w),
      term_w = or_else (term_d d) (term_w w),
      pronunciation = or_else_opt (pronunciation_d d) (pronunciation w),
      partOfSpeech = or_else (partOfSpeech_d d) (partOfSpeech w),
      meaning = or_else (meaning_d d) (meaning w),
      exampleSentence = or_else (exampleSentence_d d) (exampleSentence w),
      exampleSentenceMeaning = or_else_opt (exampleSentenceMeaning_d d) (exampleSentenceMeaning w),
      gradeLevel = or_else (gradeLevel_d d) (gradeLevel w),
      isCustom = or_else_opt (isCustom_d d) (isCustom w),
      unit_w = or_else_opt (unit_d d) (unit_w w)\<rparr>"

text \<open>\<open>a || b\<close> on optional strings: the first one that is present and not empty.\<close>

definition or_str :: "string option \<Rightarrow> string option \<Rightarrow> string option" where
  "or_str a b = (if truthy a then a else b)"

text \<open>
  \<^verbatim>\<open>
  const onSaveCustomWord = async (wordData: Partial<Word>, gradeLevelForNew = userSettings?.grade,
                                  unitNumber?: number): Promise<boolean> => {
      if (!wordData.term?.trim() || !wordData.meaning?.trim() || !wordData.partOfSpeech?.trim()
          || !wordData.exampleSentence?.trim()) { ...; return false; }
      const termToSave = wordData.term.trim();
      if (wordData.id) { // Editing existing custom word
          const wordIndex = allWords.findIndex(w => w.id === wordData.id && w.isCustom);
          if (wordIndex > -1) {
              const updatedWord = { ...allWords[wordIndex], ...wordData, term: termToSave,
                  unit: unitNumber !== undefined ? String(unitNumber) : allWords[wordIndex].unit };
              const newAllWords = [...allWords];
              newAllWords[wordIndex] = updatedWord;
              setAllWords(newAllWords);
              return true;
          }
          return false;
      } else { // Adding new word
          const existingWordGlobal =
              allWords.find(w => w.term.toLowerCase() === termToSave.toLowerCase());
          if (existingWordGlobal) { ...; return false; }
          const newWord: Word = {
              id: Date.now().toString(), term: termToSave,
              pronunciation: wordData.pronunciation || '',
              partOfSpeech: wordData.partOfSpeech, meaning: wordData.meaning,
              exampleSentence: wordData.exampleSentence,
              exampleSentenceMeaning: wordData.exampleSentenceMeaning || '',
              gradeLevel: gradeLevelForNew || userSettings?.grade || 'middle1',
              isCustom: true,
              unit: unitNumber !== undefined ? String(unitNumber) : undefined
          };
          setAllWords(prevWords => [...prevWords, newWord]);
          if (!wordStats[newWord.id]) { updateWordStat(newWord.id, getDefaultWordStat(newWord.id)); }
          addXp(2);
          return true;
      }
  };
  \<close>
  \<open>dateNow\<close> is the value of \<open>Date.now()\<close>. The result is the boolean the promise resolves
  to, with the state after the call.
\<close>

definition onSaveCustomWord ::
  "(string \<Rightarrow> string) \<Rightarrow> (string \<Rightarrow> string) \<Rightarrow> int \<Rightarrow> WordData \<Rightarrow> string option \<Rightarrow> int option
     \<Rightarrow> AppState \<Rightarrow> bool \<times> AppState" where
  "onSaveCustomWord trim toLowerCase dateNow wordData gradeLevelForNewArg unitNumber st =
     (let gradeLevelForNew =
            (case gradeLevelForNewArg of
               Some gl \<Rightarrow> Some gl
             | None \<Rightarrow> map_option grade (userSettings st))
      in if blank trim (term_d wordData) \<or> blank trim (meaning_d wordData)
            \<or> blank trim (partOfSpeech_d wordData) \<or> blank trim (exampleSentence_d wordData)
         then (False, st)
         else
           (let termToSave = trim (the (term_d wordData))
            in if id_truthy (id_d wordData)
               then
                 (case findIndex (\<lambda>w. Some (id_w w) = id_d wordData \<and> is_custom w) (allWords st) of
                    Some wordIndex \<Rightarrow>
                      (let updatedWord =
                             (spread_WordData (allWords st ! wordIndex) wordData)
                               \<lparr>term_w := termToSave,
                                unit_w := (case unitNumber of
                                             Some n \<Rightarrow> Some (UnitStr (String_of_number n))
                                           | None \<Rightarrow> unit_w (allWords st ! wordIndex))\<rparr>
                       in (True, st\<lparr>allWords := (allWords st)[wordIndex := updatedWord]\<rparr>))
                  | None \<Rightarrow> (False, st))
               else
                 (case find (\<lambda>w. toLowerCase (term_w w) = toLowerCase termToSave) (allWords st) of
                    Some existingWordGlobal \<Rightarrow> (False, st)
                  | None \<Rightarrow>
                      (let newWord =
                             \<lparr>id_w = StrId (String_of_number dateNow),
                              term_w = termToSave,
                              pronunciation = or_str (pronunciation_d wordData) (Some []),
                              partOfSpeech = the (partOfSpeech_d wordData),
                              meaning = the (meaning_d wordData),
                              exampleSentence = the (exampleSentence_d wordData),
                              exampleSentenceMeaning =
                                or_str (exampleSentenceMeaning_d wordData) (Some []),
                              gradeLevel =
                                the (or_str gradeLevelForNew
                                       (or_str (map_option grade (userSettings st))
                                          (Some ''middle1''))),
                              isCustom = Some True,
                              unit_w = map_option (\<lambda>n. UnitStr (String_of_number n)) unitNumber\<rparr>;
                           st1 = st\<lparr>allWords := allWords st @ [newWord]\<rparr>;
                           st2 = (if wordStats st (prop_key (id_w newWord)) = None
                                  then updateWordStat (id_w newWord)
                                         (\<lambda>s. getDefaultWordStat (id_w newWord)) st1
                                  else st1)
                       in (True, addXp 2 st2)))))"

section \<open>Example data\<close>

text \<open>
  To run the handler on examples, the two platform functions are needed on the strings of
  the examples. All of these consist of ASCII characters, and on such strings
  \<open>String.prototype.trim\<close> strips exactly the characters tab, line feed, vertical tab, form
  feed, carriage return and space from both ends, and \<open>String.prototype.toLowerCase\<close>
  lowers exactly the letters \<open>A\<close> to \<open>Z\<close>. The two functions below do that; they are used
  for the examples only.
\<close>

definition ascii_space :: "char \<Rightarrow> bool" where
  "ascii_space c = (c \<in> set [CHR 0x20, CHR 0x09, CHR 0x0A, CHR 0x0B, CHR 0x0C, CHR 0x0D])"

definition ascii_trim :: "string \<Rightarrow> string" where
  "ascii_trim s = rev (dropWhile ascii_space (rev (dropWhile ascii_space s)))"

definition ascii_lower_char :: "char \<Rightarrow> char" where
  "ascii_lower_char c =
     (if (65::nat) \<le> of_char c \<and> of_char c \<le> (90::nat)
      then char_of ((of_char c :: nat) + 32) else c)"

definition ascii_toLowerCase :: "string \<Rightarrow> string" where
  "ascii_toLowerCase s = map ascii_lower_char s"

definition mk_word :: "word_id \<Rightarrow> string \<Rightarrow> string \<Rightarrow> string \<Rightarrow> bool option \<Rightarrow> Word" where
  "mk_word i t m gl c =
     \<lparr>id_w = i, term_w = t, pronunciation = None, partOfSpeech = ''n'', meaning = m,
      exampleSentence = ''s'', exampleSentenceMeaning = None, gradeLevel = gl,
      isCustom = c, unit_w = None\<rparr>"

definition ex_words :: "Word list" where
  "ex_words =
     [mk_word (NumId 1) ''apple'' ''m1'' ''middle1'' None,
      mk_word (NumId 2) ''book'' ''m2'' ''middle1'' None,
      mk_word (StrId ''1700'') ''cat'' ''m3'' ''middle1'' (Some True),
      mk_word (NumId 4) ''dog'' ''m4'' ''middle1'' None,
      mk_word (NumId 5) ''eel'' ''m5'' ''high1'' None]"

definition ex_stats :: WordStats where
  "ex_stats =
     [''2'' \<mapsto> \<lparr>id_s = NumId 2, isMastered = False,
               lastReviewed = Some ''2024-05-01T10:00:00.000Z'', quizIncorrectCount = 1\<rparr>,
      ''1700'' \<mapsto> \<lparr>id_s = StrId ''1700'', isMastered = False,
               lastReviewed = Some ''2024-05-02T08:00:00.000Z'', quizIncorrectCount = 0\<rparr>,
      ''4'' \<mapsto> \<lparr>id_s = NumId 4, isMastered = True,
               lastReviewed = None, quizIncorrectCount = 0\<rparr>]"

definition ex_settings :: UserSettings where
  "ex_settings =
     \<lparr>grade = ''middle1'', textbook = [], dailyGoal = 10, username = ''u'', theme = Light,
      speechRate = 1, autoPlayAudio = False, xp = 98, level = 1\<rparr>"

definition ex_state :: AppState where
  "ex_state =
     \<lparr>userSettings = Some ex_settings, allWords = ex_words, wordStats = ex_stats,
      learnedWordsTodayCount = 0, totalWordsLearnedOverall = 7,
      learningStreak = \<lparr>currentStreak = 2, bestStreak = 2, lastLearnedDate = ''2024-05-01''\<rparr>\<rparr>"

definition ex_data :: WordData where
  "ex_data =
     \<lparr>id_d = None, term_d = Some '' Apple '', pronunciation_d = None, partOfSpeech_d = Some ''n'',
      meaning_d = Some ''fruit'', exampleSentence_d = Some ''An apple.'',
      exampleSentenceMeaning_d = None, gradeLevel_d = None, isCustom_d = None, unit_d = None\<rparr>"

text \<open>
  A word whose meaning is the first placeholder string, and a catalog in which four words of
  one grade carry the same id.
\<close>

definition ex_placeholder_word :: Word where
  "ex_placeholder_word = mk_word (NumId 9) ''x'' (placeholders ! 0) ''g'' None"

definition ex_shared_id_words :: "Word list" where
  "ex_shared_id_words =
     [ex_placeholder_word,
      mk_word (NumId 9) ''y'' ''b'' ''g'' None,
      mk_word (NumId 9) ''z'' ''c'' ''g'' None,
      mk_word (NumId 9) ''w'' ''d'' ''g'' None]"

text \<open>An edit of the custom word \<open>cat\<close> that keeps its term and gives it a new meaning.\<close>

definition ex_edit :: WordData where
  "ex_edit = ex_data\<lparr>id_d := Some (StrId ''1700''), term_d := Some ''cat''\<rparr>"

text \<open>
  The example state after learning the word with id \<open>1\<close> on 2 May 2024, after learning it
  a second time half an hour later, and after the application is loaded again a week
  later.
\<close>

definition ex_state_learned :: AppState where
  "ex_state_learned =
     onWordLearned ''2024-05-02'' ''2024-05-02T09:00:00.000Z'' ''2024-05-01'' (NumId 1) False ex_state"

definition ex_state_learned_twice :: AppState where
  "ex_state_learned_twice =
     onWordLearned ''2024-05-02'' ''2024-05-02T09:30:00.000Z'' ''2024-05-01'' (NumId 1) False
       ex_state_learned"

definition ex_state_reloaded :: AppState where
  "ex_state_reloaded =
     ex_state_learned\<lparr>learningStreak :=
       load_learningStreak ''2024-05-09'' ''2024-05-08'' (Some (learningStreak ex_state_learned))\<rparr>"

section \<open>Properties of \<open>shuffleArray\<close>\<close>

lemma random_below_range: "0 < n \<Longrightarrow> fst (random_below n g) < n"
  by (cases g) simp_all

lemma shuffle_loop_mset:
  "k < length xs \<Longrightarrow> mset (fst (shuffle_loop k g xs)) = mset xs"
proof (induction k arbitrary: g xs)
  case 0
  then show ?case by simp
next
  case (Suc k)
  obtain j g' where d: "random_below (Suc k + 1) g = (j, g')"
    by (cases "random_below (Suc k + 1) g")
  have "j < Suc k + 1"
    using random_below_range [of "Suc k + 1" g] d by simp
  with Suc.prems have jl: "j < length xs" by simp
  let ?ys = "xs[Suc k := xs ! j, j := xs ! Suc k]"
  have "mset ?ys = mset xs"
    using mset_swap [OF jl Suc.prems] .
  moreover have "mset (fst (shuffle_loop k g' ?ys)) = mset ?ys"
    using Suc.prems by (intro Suc.IH) simp
  ultimately show ?case using d by simp
qed

lemma shuffleArray_mset: "mset (fst (shuffleArray g xs)) = mset xs"
proof (cases xs)
  case Nil
  then show ?thesis by (simp add: shuffleArray_def)
next
  case (Cons x ys)
  then have "length xs - 1 < length xs" by simp
  then show ?thesis
    unfolding shuffleArray_def by (rule shuffle_loop_mset)
qed

lemma shuffleArray_set: "set (fst (shuffleArray g xs)) = set xs"
  using shuffleArray_mset [of g xs] by (metis set_mset_mset)

lemma shuffleArray_length: "length (fst (shuffleArray g xs)) = length xs"
  using shuffleArray_mset [of g xs] by (metis size_mset)

lemma shuffleArray_distinct: "distinct (fst (shuffleArray g xs)) = distinct xs"
  using shuffleArray_mset [of g xs] by (metis mset_eq_imp_distinct_iff)

lemma shuffle_loop_st_frame:
  "a \<noteq> newArray \<Longrightarrow> cells (fst (shuffle_loop_st k g newArray s)) a = cells s a"
  by (induction k arbitrary: g s) (auto split: prod.splits)

lemma shuffle_loop_st_next_free:
  "next_free (fst (shuffle_loop_st k g newArray s)) = next_free s"
  by (induction k arbitrary: g s) (auto split: prod.splits)

lemma shuffle_loop_st_pure:
  "cells (fst (shuffle_loop_st k g newArray s)) newArray = fst (shuffle_loop k g (cells s newArray))
   \<and> snd (shuffle_loop_st k g newArray s) = snd (shuffle_loop k g (cells s newArray))"
  by (induction k arbitrary: g s) (auto split: prod.splits)

text \<open>
  Claim C10. \<open>shuffleArray\<close> returns a permutation of its input: the output holds the same
  elements with the same multiplicities. On the store, the array it was given, and every
  other array allocated before the call, is left as it was; the result is a freshly
  allocated array holding what the pure function computes.
\<close>

theorem shuffleArray_permutation:
  "mset (fst (shuffleArray g xs)) = mset xs \<and>
   (case shuffleArray_st g array s of
      (newArray, s', g') \<Rightarrow>
        (\<forall>a. a < next_free s \<longrightarrow> cells s' a = cells s a) \<and>
        newArray = next_free s \<and>
        cells s' newArray = fst (shuffleArray g (cells s array)) \<and>
        mset (cells s' newArray) = mset (cells s array) \<and>
        g' = snd (shuffleArray g (cells s array)))"
proof -
  let ?n = "next_free s"
  let ?s1 = "s\<lparr>cells := (cells s)(?n := cells s array), next_free := Suc ?n\<rparr>"
  let ?k = "length (cells s array) - 1"
  obtain s2 g2 where run: "shuffle_loop_st ?k g ?n ?s1 = (s2, g2)"
    by (cases "shuffle_loop_st ?k g ?n ?s1")
  have res: "shuffleArray_st g array s = (?n, s2, g2)"
    using run by (simp add: shuffleArray_st_def Let_def)
  have frame: "\<forall>a. a < ?n \<longrightarrow> cells s2 a = cells s a"
  proof (intro allI impI)
    fix a assume "a < ?n"
    then have "a \<noteq> ?n" by simp
    from shuffle_loop_st_frame [OF this, of ?k g ?s1] run
    show "cells s2 a = cells s a" using \<open>a \<noteq> ?n\<close> by simp
  qed
  have pure: "cells s2 ?n = fst (shuffleArray g (cells s array))
              \<and> g2 = snd (shuffleArray g (cells s array))"
    using shuffle_loop_st_pure [of ?k g ?n ?s1] run
    by (simp add: shuffleArray_def)
  have perm: "mset (cells s2 ?n) = mset (cells s array)"
    using pure by (simp add: shuffleArray_mset)
  show ?thesis
    using res frame pure perm by (simp add: shuffleArray_mset)
qed

theorem shuffleArray_permutation_witness:
  "fst (shuffleArray [1, 0, 5] [10, 20, 30 :: nat]) = [30, 10, 20] \<and>
   mset (fst (shuffleArray [1, 0, 5] [10, 20, 30 :: nat])) = mset [10, 20, 30] \<and>
   (case shuffleArray_st [1, 0, 5] 0 \<lparr>cells = (\<lambda>a. if a = 0 then [10, 20, 30 :: nat] else []), next_free = 1\<rparr> of
      (newArray, s', g') \<Rightarrow>
        (0::nat) < 1 \<and> cells s' 0 = [10, 20, 30] \<and> newArray = 1 \<and> cells s' newArray = [30, 10, 20])"
proof -
  have e: "fst (shuffleArray [1, 0, 5] [10, 20, 30 :: nat]) = [30, 10, 20]"
    by (simp add: shuffleArray_def numeral_2_eq_2)
  show ?thesis
    using shuffleArray_permutation [where g = "[1, 0, 5]" and xs = "[10, 20, 30 :: nat]"
        and array = 0
        and s = "\<lparr>cells = (\<lambda>a. if a = 0 then [10, 20, 30 :: nat] else []), next_free = 1\<rparr>"] e
    by (auto split: prod.splits)
qed

section \<open>Properties of the selection engine\<close>

lemma mset_insert_sorted: "mset (insert_sorted cmp x ys) = add_mset x (mset ys)"
  by (induction ys) auto

lemma mset_sort_with: "mset (sort_with cmp xs) = mset xs"
  unfolding sort_with_def by (induction xs) (simp_all add: mset_insert_sorted)

lemma set_sort_with: "set (sort_with cmp xs) = set xs"
  using mset_sort_with [of cmp xs] by (metis set_mset_mset)

lemma set_slice0: "set (slice0 e xs) \<subseteq> set xs"
  by (auto simp: slice0_def dest: in_set_takeD)

lemma length_slice0: "0 \<le> e \<Longrightarrow> int (length (slice0 e xs)) \<le> e"
  by (simp add: slice0_def)

lemma selectWords_subset:
  "set (fst (selectWords words stats gr getTime today g count_w fq))
     \<subseteq> set (eligibleWords words stats gr today fq)"
proof -
  let ?srt = "sort_with (compareWords getTime stats)
                (eligibleWords words stats gr today fq)"
  obtain sh g' where sh: "shuffleArray g ?srt = (sh, g')"
    by (cases "shuffleArray g ?srt")
  have "set sh = set ?srt"
    using shuffleArray_set [of g ?srt] sh by simp
  then have "set (slice0 count_w sh) \<subseteq> set (eligibleWords words stats gr today fq)"
    using set_slice0 [of count_w sh] by (simp add: set_sort_with)
  then show ?thesis
    using sh by (simp add: selectWords_def Let_def)
qed

lemma selectWords_length:
  "0 \<le> count_w \<Longrightarrow>
   int (length (fst (selectWords words stats gr getTime today g count_w fq))) \<le> count_w"
  by (simp add: selectWords_def Let_def length_slice0 split: prod.splits)

text \<open>
  Claim C1. In DailyNew mode (\<open>forQuickReview = false\<close>) every word that \<open>selectWords\<close>
  returns is a word of the catalog of the requested gr, is not mastered according to its
  stat (the default stat when no record is stored), and has \<open>lastReviewed\<close> either \<open>null\<close>
  or with a date part different from today's. The list returned is no longer than
  \<open>count\<close>, for a \<open>count\<close> that is not negative (the callers pass the daily goal, kept at
  \<open>1\<close> or more by the settings forms, or \<open>3\<close>). \<open>today\<close> is a date string produced by
  \<open>toISOString\<close>, which is never empty.
\<close>

theorem selectWords_DailyNew_eligibility:
  assumes "today \<noteq> []"
  shows "(\<forall>w \<in> set (fst (selectWords words stats gr getTime today g count_w False)).
            w \<in> set words \<and> gradeLevel w = gr \<and>
            \<not> isMastered (getWordStat stats (id_w w)) \<and>
            (lastReviewed (getWordStat stats (id_w w)) = None \<or>
             (\<exists>d. lastReviewed (getWordStat stats (id_w w)) = Some d \<and> split_T0 d \<noteq> today)))
         \<and> (0 \<le> count_w \<longrightarrow>
              int (length (fst (selectWords words stats gr getTime today g count_w False)))
                \<le> count_w)"
proof (intro conjI ballI impI)
  fix w
  assume "w \<in> set (fst (selectWords words stats gr getTime today g count_w False))"
  then have el: "w \<in> set (eligibleWords words stats gr today False)"
    using selectWords_subset by blast
  then show "w \<in> set words" "gradeLevel w = gr"
    "\<not> isMastered (getWordStat stats (id_w w))"
    by (simp_all add: eligibleWords_def)
  from el have n: "not_reviewed_today today (getWordStat stats (id_w w))"
    by (simp add: eligibleWords_def)
  show "lastReviewed (getWordStat stats (id_w w)) = None \<or>
        (\<exists>d. lastReviewed (getWordStat stats (id_w w)) = Some d \<and> split_T0 d \<noteq> today)"
  proof (cases "lastReviewed (getWordStat stats (id_w w))")
    case None
    then show ?thesis by simp
  next
    case (Some d)
    with n have "d = [] \<or> split_T0 d \<noteq> today"
      by (simp add: not_reviewed_today_def)
    then have "split_T0 d \<noteq> today"
      using assms by (auto simp: split_T0_def)
    with Some show ?thesis by simp
  qed
next
  assume "0 \<le> count_w"
  then show "int (length (fst (selectWords words stats gr getTime today g count_w False)))
               \<le> count_w"
    by (rule selectWords_length)
qed

theorem selectWords_DailyNew_eligibility_witness:
  "''2024-05-02'' \<noteq> [] \<and>
   fst (selectWords ex_words ex_stats ''middle1'' (\<lambda>s. 0) ''2024-05-02'' [1] 1 False)
     = [mk_word (NumId 2) ''book'' ''m2'' ''middle1'' None] \<and>
   gradeLevel (mk_word (NumId 2) ''book'' ''m2'' ''middle1'' None) = ''middle1'' \<and>
   \<not> isMastered (getWordStat ex_stats (NumId 2)) \<and>
   (\<exists>d. lastReviewed (getWordStat ex_stats (NumId 2)) = Some d \<and> split_T0 d \<noteq> ''2024-05-02'') \<and>
   (0::int) \<le> 1 \<and>
   int (length (fst (selectWords ex_words ex_stats ''middle1'' (\<lambda>s. 0) ''2024-05-02'' [1] 1 False)))
     \<le> 1"
proof -
  let ?book = "mk_word (NumId 2) ''book'' ''m2'' ''middle1'' None"
  have h: "''2024-05-02'' \<noteq> []" by simp
  have r: "fst (selectWords ex_words ex_stats ''middle1'' (\<lambda>s. 0) ''2024-05-02'' [1] 1 False)
             = [?book]"
    by code_simp
  have i: "id_w ?book = NumId 2" by (simp add: mk_word_def)
  have l: "lastReviewed (getWordStat ex_stats (NumId 2)) \<noteq> None" by code_simp
  note t = selectWords_DailyNew_eligibility [OF h, of ex_words ex_stats "''middle1''"
      "\<lambda>s. 0" "[1]" 1]
  from t have b: "\<forall>w \<in> set [?book].
      w \<in> set ex_words \<and> gradeLevel w = ''middle1'' \<and>
      \<not> isMastered (getWordStat ex_stats (id_w w)) \<and>
      (lastReviewed (getWordStat ex_stats (id_w w)) = None \<or>
       (\<exists>d. lastReviewed (getWordStat ex_stats (id_w w)) = Some d \<and> split_T0 d \<noteq> ''2024-05-02''))"
    unfolding r by (rule conjunct1)
  from t have c: "int (length (fst (selectWords ex_words ex_stats ''middle1'' (\<lambda>s. 0)
      ''2024-05-02'' [1] 1 False))) \<le> 1"
    by simp
  from b i l have
    "gradeLevel ?book = ''middle1''"
    "\<not> isMastered (getWordStat ex_stats (NumId 2))"
    "\<exists>d. lastReviewed (getWordStat ex_stats (NumId 2)) = Some d \<and> split_T0 d \<noteq> ''2024-05-02''"
    by simp_all
  with h r c show ?thesis by simp
qed

text \<open>
  Claim C2, as stated, fails: a word reviewed on an earlier day passes the filter of both
  modes. With the example catalog, the word \<open>book\<close> (last reviewed the day before) is the
  answer of \<open>selectWords\<close> in QuickReview mode and in DailyNew mode against the same
  snapshot.
\<close>

theorem selectWords_modes_not_disjoint:
  "set (eligibleWords ex_words ex_stats ''middle1'' ''2024-05-02'' True)
     \<inter> set (eligibleWords ex_words ex_stats ''middle1'' ''2024-05-02'' False) \<noteq> {} \<and>
   mk_word (NumId 2) ''book'' ''m2'' ''middle1'' None
     \<in> set (fst (selectWords ex_words ex_stats ''middle1'' (\<lambda>s. 0) ''2024-05-02'' [0] 3 True)) \<and>
   mk_word (NumId 2) ''book'' ''m2'' ''middle1'' None
     \<in> set (fst (selectWords ex_words ex_stats ''middle1'' (\<lambda>s. 0) ''2024-05-02'' [0] 3 False))"
  by code_simp

text \<open>
  Claim C2, amended. For a fixed catalog, snapshot, gr and date, every word eligible in
  QuickReview mode is also eligible in DailyNew mode. The words eligible in DailyNew mode
  only are those never reviewed (\<open>lastReviewed\<close> is \<open>null\<close> or empty). A word whose
  last review has today's date is eligible in neither mode, and whatever \<open>selectWords\<close>
  returns in QuickReview mode is eligible in DailyNew mode.
\<close>

theorem QuickReview_eligible_subset_DailyNew:
  "set (eligibleWords words stats gr today True)
     \<subseteq> set (eligibleWords words stats gr today False) \<and>
   set (eligibleWords words stats gr today False)
     - set (eligibleWords words stats gr today True)
     = {w \<in> set (eligibleWords words stats gr today False).
          \<not> truthy (lastReviewed (getWordStat stats (id_w w)))} \<and>
   {w \<in> set (eligibleWords words stats gr today False).
      \<exists>d. lastReviewed (getWordStat stats (id_w w)) = Some d \<and> d \<noteq> [] \<and> split_T0 d = today}
     = {} \<and>
   set (fst (selectWords words stats gr getTime today g count_w True))
     \<subseteq> set (eligibleWords words stats gr today False)"
proof -
  have sub: "set (eligibleWords words stats gr today True)
        \<subseteq> set (eligibleWords words stats gr today False)"
    by (auto simp: eligibleWords_def reviewed_other_day_def not_reviewed_today_def
        split: option.splits)
  have diff: "set (eligibleWords words stats gr today False)
        - set (eligibleWords words stats gr today True)
      = {w \<in> set (eligibleWords words stats gr today False).
           \<not> truthy (lastReviewed (getWordStat stats (id_w w)))}"
    by (auto simp: eligibleWords_def reviewed_other_day_def not_reviewed_today_def
        split: option.splits)
  have today: "{w \<in> set (eligibleWords words stats gr today False).
      \<exists>d. lastReviewed (getWordStat stats (id_w w)) = Some d \<and> d \<noteq> [] \<and> split_T0 d = today}
      = {}"
    by (auto simp: eligibleWords_def not_reviewed_today_def split: option.splits)
  have sel: "set (fst (selectWords words stats gr getTime today g count_w True))
        \<subseteq> set (eligibleWords words stats gr today False)"
    using selectWords_subset [of words stats gr getTime today g count_w True] sub
    by blast
  from sub diff today sel show ?thesis by blast
qed

theorem QuickReview_eligible_subset_DailyNew_witness:
  "eligibleWords ex_words ex_stats ''middle1'' ''2024-05-02'' True
     = [mk_word (NumId 2) ''book'' ''m2'' ''middle1'' None] \<and>
   eligibleWords ex_words ex_stats ''middle1'' ''2024-05-02'' False
     = [mk_word (NumId 1) ''apple'' ''m1'' ''middle1'' None,
        mk_word (NumId 2) ''book'' ''m2'' ''middle1'' None] \<and>
   set (eligibleWords ex_words ex_stats ''middle1'' ''2024-05-02'' True)
     \<subseteq> set (eligibleWords ex_words ex_stats ''middle1'' ''2024-05-02'' False)"
proof -
  have a: "eligibleWords ex_words ex_stats ''middle1'' ''2024-05-02'' True
     = [mk_word (NumId 2) ''book'' ''m2'' ''middle1'' None]"
    by code_simp
  have b: "eligibleWords ex_words ex_stats ''middle1'' ''2024-05-02'' False
     = [mk_word (NumId 1) ''apple'' ''m1'' ''middle1'' None,
        mk_word (NumId 2) ''book'' ''m2'' ''middle1'' None]"
    by code_simp
  from QuickReview_eligible_subset_DailyNew [of ex_words ex_stats "''middle1''" "''2024-05-02''"]
  have "set (eligibleWords ex_words ex_stats ''middle1'' ''2024-05-02'' True)
     \<subseteq> set (eligibleWords ex_words ex_stats ''middle1'' ''2024-05-02'' False)"
    by (rule conjunct1)
  with a b show ?thesis by (intro conjI)
qed

section \<open>Properties of the word-learned event and the streak\<close>

lemma addXp_frame [simp]:
  "allWords (addXp n st) = allWords st"
  "wordStats (addXp n st) = wordStats st"
  "learnedWordsTodayCount (addXp n st) = learnedWordsTodayCount st"
  "totalWordsLearnedOverall (addXp n st) = totalWordsLearnedOverall st"
  "learningStreak (addXp n st) = learningStreak st"
  by (simp_all add: addXp_def)

lemma addXp_xp:
  "map_option xp (userSettings (addXp n st))
     = map_option (\<lambda>x. x + n) (map_option xp (userSettings st))"
  by (simp add: addXp_def Let_def split: option.splits)

lemma updateWordStat_frame [simp]:
  "allWords (updateWordStat w f st) = allWords st"
  "userSettings (updateWordStat w f st) = userSettings st"
  "learnedWordsTodayCount (updateWordStat w f st) = learnedWordsTodayCount st"
  "totalWordsLearnedOverall (updateWordStat w f st) = totalWordsLearnedOverall st"
  "learningStreak (updateWordStat w f st) = learningStreak st"
  by (simp_all add: updateWordStat_def)

lemma getWordStat_updateWordStat:
  "getWordStat (wordStats (updateWordStat w f st)) w
     = (f (getWordStat (wordStats st) w))\<lparr>id_s := w\<rparr>"
  by (simp add: updateWordStat_def getWordStat_def)

lemma onWordLearned_lastReviewed:
  "lastReviewed (getWordStat (wordStats (onWordLearned today now yesterday w q st)) w) = Some now"
  by (simp add: onWordLearned_def Let_def getWordStat_updateWordStat)

lemma onWordLearned_counted_at_most_once:
  "learnedWordsTodayCount (onWordLearned today now yesterday w q st)
     \<le> learnedWordsTodayCount st + 1"
  by (simp add: onWordLearned_def Let_def)

text \<open>
  Claim C3. Let \<open>onWordLearned(id, false)\<close> be called twice for the same id, the second
  call on the calendar day of the first (the date read by the second call is the date part
  of the timestamp the first call stored). Then the second call is nothing but the update
  of the word's \<open>lastReviewed\<close>: the daily counter, the overall counter, the streak, the
  settings (XP and level included) and the catalog are those left by the first call, so the
  daily counter has grown by at most one over both calls.
\<close>

theorem onWordLearned_no_duplicate_daily_count:
  assumes "today2 \<noteq> []" and "split_T0 now1 = today2"
  shows "(let st1 = onWordLearned today1 now1 yesterday1 wordId False st;
              st2 = onWordLearned today2 now2 yesterday2 wordId False st1
          in st2 = updateWordStat wordId (\<lambda>s. s\<lparr>lastReviewed := Some now2\<rparr>) st1 \<and>
             lastReviewed (getWordStat (wordStats st2) wordId) = Some now2 \<and>
             learnedWordsTodayCount st2 = learnedWordsTodayCount st1 \<and>
             totalWordsLearnedOverall st2 = totalWordsLearnedOverall st1 \<and>
             learningStreak st2 = learningStreak st1 \<and>
             userSettings st2 = userSettings st1 \<and>
             allWords st2 = allWords st1 \<and>
             learnedWordsTodayCount st2 \<le> learnedWordsTodayCount st + 1)"
proof -
  define st1 where "st1 = onWordLearned today1 now1 yesterday1 wordId False st"
  define st2 where "st2 = onWordLearned today2 now2 yesterday2 wordId False st1"
  have lr: "lastReviewed (getWordStat (wordStats st1) wordId) = Some now1"
    unfolding st1_def by (rule onWordLearned_lastReviewed)
  have "now1 \<noteq> []"
    using assms by (auto simp: split_T0_def)
  then have "\<not> not_reviewed_today today2 (getWordStat (wordStats st1) wordId)"
    using lr assms(2) by (simp add: not_reviewed_today_def)
  then have eq: "st2 = updateWordStat wordId (\<lambda>s. s\<lparr>lastReviewed := Some now2\<rparr>) st1"
    unfolding st2_def by (simp add: onWordLearned_def Let_def)
  have once: "learnedWordsTodayCount st1 \<le> learnedWordsTodayCount st + 1"
    unfolding st1_def by (rule onWordLearned_counted_at_most_once)
  have "lastReviewed (getWordStat (wordStats st2) wordId) = Some now2"
    unfolding st2_def by (rule onWordLearned_lastReviewed)
  moreover have "learnedWordsTodayCount st2 = learnedWordsTodayCount st1"
    "totalWordsLearnedOverall st2 = totalWordsLearnedOverall st1"
    "learningStreak st2 = learningStreak st1"
    "userSettings st2 = userSettings st1"
    "allWords st2 = allWords st1"
    unfolding eq by simp_all
  ultimately show ?thesis
    using eq once unfolding Let_def
    by (simp add: st1_def [symmetric] st2_def [symmetric])
qed

theorem onWordLearned_no_duplicate_daily_count_witness:
  "''2024-05-02'' \<noteq> [] \<and>
   split_T0 ''2024-05-02T09:00:00.000Z'' = ''2024-05-02'' \<and>
   learnedWordsTodayCount ex_state = 0 \<and>
   learnedWordsTodayCount ex_state_learned = 1 \<and>
   learnedWordsTodayCount ex_state_learned_twice = 1 \<and>
   totalWordsLearnedOverall ex_state_learned_twice = totalWordsLearnedOverall ex_state_learned \<and>
   learningStreak ex_state_learned_twice = learningStreak ex_state_learned \<and>
   lastReviewed (getWordStat (wordStats ex_state_learned_twice) (NumId 1))
     = Some ''2024-05-02T09:30:00.000Z''"
proof -
  have h1: "''2024-05-02'' \<noteq> []" by simp
  have h2: "split_T0 ''2024-05-02T09:00:00.000Z'' = ''2024-05-02''"
    by (simp add: split_T0_def)
  have c0: "learnedWordsTodayCount ex_state = 0"
    by (simp add: ex_state_def)
  have c1: "learnedWordsTodayCount ex_state_learned = 1"
    by code_simp
  note t = onWordLearned_no_duplicate_daily_count [OF h1 h2, of "''2024-05-02''" "''2024-05-01''"
      "NumId 1" ex_state "''2024-05-02T09:30:00.000Z''" "''2024-05-01''"]
  from t have
    "learnedWordsTodayCount ex_state_learned_twice = learnedWordsTodayCount ex_state_learned"
    "totalWordsLearnedOverall ex_state_learned_twice = totalWordsLearnedOverall ex_state_learned"
    "learningStreak ex_state_learned_twice = learningStreak ex_state_learned"
    "lastReviewed (getWordStat (wordStats ex_state_learned_twice) (NumId 1))
       = Some ''2024-05-02T09:30:00.000Z''"
    unfolding Let_def ex_state_learned_twice_def ex_state_learned_def by blast+
  with h1 h2 c0 c1 show ?thesis by simp
qed

text \<open>
  Claim C8. A quick review, \<open>onWordLearned(wordId, true)\<close>, in any state and for any id:
  the word's \<open>lastReviewed\<close> becomes the current time, the XP total of the settings grows
  by exactly \<open>1\<close> (when no settings are loaded there is no XP total to add to), and
  \<open>learnedWordsToday\<close>, \<open>totalWordsLearnedOverall\<close>, \<open>currentStreak\<close>, \<open>bestStreak\<close> and
  \<open>lastLearnedDate\<close> keep their values.
\<close>

theorem onWordLearned_quick_review_frame:
  "(let st' = onWordLearned today now yesterday wordId True st
    in lastReviewed (getWordStat (wordStats st') wordId) = Some now \<and>
       map_option xp (userSettings st')
         = map_option (\<lambda>x. x + 1) (map_option xp (userSettings st)) \<and>
       learnedWordsTodayCount st' = learnedWordsTodayCount st \<and>
       totalWordsLearnedOverall st' = totalWordsLearnedOverall st \<and>
       currentStreak (learningStreak st') = currentStreak (learningStreak st) \<and>
       bestStreak (learningStreak st') = bestStreak (learningStreak st) \<and>
       lastLearnedDate (learningStreak st') = lastLearnedDate (learningStreak st) \<and>
       allWords st' = allWords st)"
  by (simp add: onWordLearned_def Let_def getWordStat_updateWordStat addXp_xp)

theorem onWordLearned_quick_review_frame_witness:
  "map_option xp (userSettings ex_state) = Some 98 \<and>
   map_option xp
     (userSettings (onWordLearned ''2024-05-02'' ''2024-05-02T09:00:00.000Z'' ''2024-05-01''
        (NumId 2) True ex_state)) = Some 99 \<and>
   lastReviewed (getWordStat (wordStats
       (onWordLearned ''2024-05-02'' ''2024-05-02T09:00:00.000Z'' ''2024-05-01''
          (NumId 2) True ex_state)) (NumId 2)) = Some ''2024-05-02T09:00:00.000Z'' \<and>
   learnedWordsTodayCount
     (onWordLearned ''2024-05-02'' ''2024-05-02T09:00:00.000Z'' ''2024-05-01''
        (NumId 2) True ex_state) = 0 \<and>
   totalWordsLearnedOverall
     (onWordLearned ''2024-05-02'' ''2024-05-02T09:00:00.000Z'' ''2024-05-01''
        (NumId 2) True ex_state) = 7"
proof -
  have x: "map_option xp (userSettings ex_state) = Some 98"
    by (simp add: ex_state_def ex_settings_def)
  have c: "learnedWordsTodayCount ex_state = 0" "totalWordsLearnedOverall ex_state = 7"
    by (simp_all add: ex_state_def)
  from onWordLearned_quick_review_frame [of "''2024-05-02''" "''2024-05-02T09:00:00.000Z''"
      "''2024-05-01''" "NumId 2" ex_state]
  show ?thesis
    unfolding Let_def x c by simp
qed

lemma streak_after_learning_best:
  "bestStreak s \<le> bestStreak (streak_after_learning today yesterday s)"
  by (simp add: streak_after_learning_def Let_def)

lemma load_learningStreak_best:
  "bestStreak (load_learningStreak today yesterday (Some s)) = bestStreak s"
  by (simp add: load_learningStreak_def)

lemma onWordLearned_best:
  "bestStreak (learningStreak st)
     \<le> bestStreak (learningStreak (onWordLearned today now yesterday w q st))"
  by (simp add: onWordLearned_def Let_def streak_after_learning_best)

lemma app_step_best:
  "app_step st st' \<Longrightarrow> bestStreak (learningStreak st) \<le> bestStreak (learningStreak st')"
  by (induction rule: app_step.induct)
    (simp_all add: onWordLearned_best load_learningStreak_best)

text \<open>
  Claim C4. Along any sequence of steps, each one a call of \<open>onWordLearned\<close> (with any
  arguments and clock readings) or a correction of the stored streak at load,
  \<open>bestStreak\<close> never decreases: its value after the sequence is at least its value before,
  and so it is after every single step.
\<close>

theorem bestStreak_monotone:
  assumes "rtranclp app_step st st'"
  shows "bestStreak (learningStreak st) \<le> bestStreak (learningStreak st')"
  using assms
proof (induction rule: rtranclp_induct)
  case base
  show ?case by simp
next
  case (step y z)
  from step.hyps(2) have "bestStreak (learningStreak y) \<le> bestStreak (learningStreak z)"
    by (rule app_step_best)
  with step.IH show ?case by simp
qed

theorem bestStreak_monotone_witness:
  "rtranclp app_step ex_state ex_state_reloaded \<and>
   learningStreak ex_state
     = \<lparr>currentStreak = 2, bestStreak = 2, lastLearnedDate = ''2024-05-01''\<rparr> \<and>
   learningStreak ex_state_learned
     = \<lparr>currentStreak = 3, bestStreak = 3, lastLearnedDate = ''2024-05-02''\<rparr> \<and>
   learningStreak ex_state_reloaded
     = \<lparr>currentStreak = 0, bestStreak = 3, lastLearnedDate = ''2024-05-02''\<rparr> \<and>
   bestStreak (learningStreak ex_state) \<le> bestStreak (learningStreak ex_state_reloaded)"
proof -
  have s1: "app_step ex_state ex_state_learned"
    unfolding ex_state_learned_def by (rule app_step.word_learned)
  have s2: "app_step ex_state_learned ex_state_reloaded"
    by (rule app_step.load_correction [of _ "''2024-05-09''" "''2024-05-08''"])
      (simp add: ex_state_reloaded_def)
  have run: "rtranclp app_step ex_state ex_state_reloaded"
    using s1 s2 by (meson rtranclp.rtrancl_into_rtrancl rtranclp.rtrancl_refl)
  have v0: "learningStreak ex_state
     = \<lparr>currentStreak = 2, bestStreak = 2, lastLearnedDate = ''2024-05-01''\<rparr>"
    by (simp add: ex_state_def)
  have v1: "learningStreak ex_state_learned
     = \<lparr>currentStreak = 3, bestStreak = 3, lastLearnedDate = ''2024-05-02''\<rparr>"
    by code_simp
  have v2: "learningStreak ex_state_reloaded
     = \<lparr>currentStreak = 0, bestStreak = 3, lastLearnedDate = ''2024-05-02''\<rparr>"
    by (simp add: ex_state_reloaded_def v1 load_learningStreak_def)
  from bestStreak_monotone [OF run] run v0 v1 v2 show ?thesis by (intro conjI)
qed

section \<open>Properties of the level curve\<close>

lemma spec_cumulative_xp_closed: "spec_cumulative_xp n = 50 * int n * (int n + 1)"
  unfolding spec_cumulative_xp_def by (induction n) (simp_all add: algebra_simps)

lemma spec_cumulative_xp_Suc: "spec_cumulative_xp (Suc n) = spec_cumulative_xp n + 100 * int (Suc n)"
  by (simp add: spec_cumulative_xp_def)

lemma spec_cumulative_xp_mono: "m \<le> n \<Longrightarrow> spec_cumulative_xp m \<le> spec_cumulative_xp n"
  by (induction n) (auto simp: spec_cumulative_xp_Suc le_Suc_eq simp del: of_nat_Suc)

lemma loop_inv:
  "1 \<le> l \<Longrightarrow> c = spec_cumulative_xp (nat l - 1) \<Longrightarrow> n = 100 * l \<Longrightarrow> c \<le> x \<Longrightarrow>
   (case calculateXPLevel_loop x l n c of (l', r, n') \<Rightarrow>
      l \<le> l' \<and> spec_cumulative_xp (nat l' - 1) \<le> x \<and> x < spec_cumulative_xp (nat l')
      \<and> r = x - spec_cumulative_xp (nat l' - 1) \<and> n' = 100 * l')"
proof (induction x l n c rule: calculateXPLevel_loop.induct)
  case (1 xp level xpForNext c)
  have nl: "nat level = Suc (nat level - 1)" using "1.prems"(1) by simp
  have nxt: "spec_cumulative_xp (nat level) = c + xpForNext"
    using "1.prems" nl spec_cumulative_xp_Suc [of "nat level - 1"] by simp
  show ?case
  proof (cases "xp \<ge> c + xpForNext")
    case True
    have "nat (level + 1) - 1 = nat level" using "1.prems"(1) by simp
    then have ih: "case calculateXPLevel_loop xp (level + 1) ((level + 1) * 100) (c + xpForNext) of
        (l', r, n') \<Rightarrow> level + 1 \<le> l' \<and> spec_cumulative_xp (nat l' - 1) \<le> xp \<and> xp < spec_cumulative_xp (nat l')
      \<and> r = xp - spec_cumulative_xp (nat l' - 1) \<and> n' = 100 * l'"
      using "1.IH" [OF True] "1.prems" True nxt by simp
    show ?thesis
      using ih True by (subst calculateXPLevel_loop.simps) (auto split: prod.splits)
  next
    case False
    then show ?thesis
      using "1.prems" nxt by (subst calculateXPLevel_loop.simps) simp
  qed
qed

lemma calculateXPLevel_bounds:
  assumes "0 \<le> x"
  shows "1 \<le> fst (calculateXPLevel x)"
    and "spec_cumulative_xp (nat (fst (calculateXPLevel x)) - 1) \<le> x"
    and "x < spec_cumulative_xp (nat (fst (calculateXPLevel x)))"
proof -
  have "spec_cumulative_xp (nat 1 - 1) = 0" by (simp add: spec_cumulative_xp_def)
  then have "case calculateXPLevel_loop x 1 100 0 of (l', r, n') \<Rightarrow>
      1 \<le> l' \<and> spec_cumulative_xp (nat l' - 1) \<le> x \<and> x < spec_cumulative_xp (nat l')
      \<and> r = x - spec_cumulative_xp (nat l' - 1) \<and> n' = 100 * l'"
    using assms by (intro loop_inv) simp_all
  then show "1 \<le> fst (calculateXPLevel x)"
    and "spec_cumulative_xp (nat (fst (calculateXPLevel x)) - 1) \<le> x"
    and "x < spec_cumulative_xp (nat (fst (calculateXPLevel x)))"
    by (auto simp: calculateXPLevel_def split: prod.splits)
qed

lemma level_unique:
  assumes "1 \<le> m" "spec_cumulative_xp (m - 1) \<le> x" "x < spec_cumulative_xp m"
    and "1 \<le> n" "spec_cumulative_xp (n - 1) \<le> x" "x < spec_cumulative_xp n"
  shows "m = n"
proof (rule ccontr)
  assume "m \<noteq> n"
  then consider "m \<le> n - 1" | "n \<le> m - 1" using assms(1,4) by linarith
  then show False
  proof cases
    case 1
    from spec_cumulative_xp_mono [OF this] assms show False by linarith
  next
    case 2
    from spec_cumulative_xp_mono [OF this] assms show False by linarith
  qed
qed

text \<open>
  Claim C7. For a total XP \<open>x \<ge> 0\<close>, the level \<open>n\<close> computed by \<open>calculateXPLevel\<close> is at
  least \<open>1\<close> and satisfies \<open>100 + ... + 100 (n - 1) \<le> x < 100 + ... + 100 n\<close>; it is the only
  such number. Consecutive thresholds differ by \<open>100 L\<close>: that much XP takes level \<open>L\<close> to
  level \<open>L + 1\<close>. \<open>addXp\<close> stores the new total together with the level computed from it.
\<close>

theorem calculateXPLevel_level_curve:
  assumes "0 \<le> x"
  shows "1 \<le> fst (calculateXPLevel x) \<and>
         spec_cumulative_xp (nat (fst (calculateXPLevel x)) - 1) \<le> x \<and>
         x < spec_cumulative_xp (nat (fst (calculateXPLevel x))) \<and>
         (\<forall>m. 1 \<le> m \<and> spec_cumulative_xp (m - 1) \<le> x \<and> x < spec_cumulative_xp m
              \<longrightarrow> int m = fst (calculateXPLevel x)) \<and>
         (\<forall>L. 1 \<le> L \<longrightarrow> spec_cumulative_xp L - spec_cumulative_xp (L - 1) = 100 * int L) \<and>
         (\<forall>st s amount. userSettings st = Some s \<and> xp s + amount = x \<longrightarrow>
              map_option xp (userSettings (addXp amount st)) = Some x \<and>
              map_option level (userSettings (addXp amount st)) = Some (fst (calculateXPLevel x)))"
proof (intro conjI allI impI)
  note b = calculateXPLevel_bounds [OF assms]
  show "1 \<le> fst (calculateXPLevel x)" by (rule b(1))
  show "spec_cumulative_xp (nat (fst (calculateXPLevel x)) - 1) \<le> x" by (rule b(2))
  show "x < spec_cumulative_xp (nat (fst (calculateXPLevel x)))" by (rule b(3))
  { fix m
    assume m: "1 \<le> m \<and> spec_cumulative_xp (m - 1) \<le> x \<and> x < spec_cumulative_xp m"
    have "1 \<le> nat (fst (calculateXPLevel x))" using b(1) by simp
    with m b have "m = nat (fst (calculateXPLevel x))"
      by (intro level_unique [of m x]) simp_all
    then show "int m = fst (calculateXPLevel x)" using b(1) by simp }
  { fix L :: nat
    assume "1 \<le> L"
    then obtain k where "L = Suc k" by (cases L) simp_all
    then show "spec_cumulative_xp L - spec_cumulative_xp (L - 1) = 100 * int L"
      by (simp add: spec_cumulative_xp_Suc) }
  { fix st :: AppState and s amount
    assume a: "userSettings st = Some s \<and> xp s + amount = x"
    then show "map_option xp (userSettings (addXp amount st)) = Some x"
      and "map_option level (userSettings (addXp amount st)) = Some (fst (calculateXPLevel x))"
      by (simp_all add: addXp_def Let_def) }
qed


theorem calculateXPLevel_level_curve_witness:
  "(0::int) \<le> 250 \<and>
   fst (calculateXPLevel 250) = 2 \<and>
   spec_cumulative_xp 1 = 100 \<and>
   spec_cumulative_xp 2 = 300 \<and>
   spec_cumulative_xp (nat (fst (calculateXPLevel 250)) - 1) \<le> 250 \<and>
   250 < spec_cumulative_xp (nat (fst (calculateXPLevel 250))) \<and>
   userSettings ex_state = Some ex_settings \<and>
   xp ex_settings + 152 = 250 \<and>
   map_option xp (userSettings (addXp 152 ex_state)) = Some 250 \<and>
   map_option level (userSettings (addXp 152 ex_state)) = Some 2"
proof -
  have h: "(0::int) \<le> 250" by simp
  have l: "fst (calculateXPLevel 250) = 2" by code_simp
  have s1: "spec_cumulative_xp 1 = 100" by (simp add: spec_cumulative_xp_def)
  have s2: "spec_cumulative_xp 2 = 300" by (simp add: spec_cumulative_xp_def numeral_2_eq_2)
  have u: "userSettings ex_state = Some ex_settings" by (simp add: ex_state_def)
  have x: "xp ex_settings + 152 = 250" by (simp add: ex_settings_def)
  note t = calculateXPLevel_level_curve [OF h]
  from t have b: "spec_cumulative_xp (nat (fst (calculateXPLevel 250)) - 1) \<le> 250"
    "250 < spec_cumulative_xp (nat (fst (calculateXPLevel 250)))"
    by blast+
  from t u x have a: "map_option xp (userSettings (addXp 152 ex_state)) = Some 250"
    "map_option level (userSettings (addXp 152 ex_state)) = Some (fst (calculateXPLevel 250))"
    by blast+
  from h l s1 s2 b u x a show ?thesis by simp
qed

section \<open>Properties of \<open>onSaveCustomWord\<close>\<close>

text \<open>
  Claim C5, as stated, fails: a call that carries the id of an existing custom word takes
  the edit branch, which does not look for the term in the catalog. Saving the custom word
  \<open>cat\<close> under its own term with a new meaning returns \<open>true\<close> and changes the catalog.
  Every string of the example is ASCII, where \<open>ascii_trim\<close> and \<open>ascii_toLowerCase\<close> are
  the platform's \<open>trim\<close> and \<open>toLowerCase\<close>.
\<close>

theorem onSaveCustomWord_edit_keeps_term:
  "mk_word (StrId ''1700'') ''cat'' ''m3'' ''middle1'' (Some True) \<in> set (allWords ex_state) \<and>
   term_d ex_edit = Some ''cat'' \<and>
   ascii_toLowerCase ''cat''
     = ascii_toLowerCase (term_w (mk_word (StrId ''1700'') ''cat'' ''m3'' ''middle1'' (Some True))) \<and>
   fst (onSaveCustomWord ascii_trim ascii_toLowerCase 1700000000001 ex_edit None None ex_state)
     = True \<and>
   allWords (snd (onSaveCustomWord ascii_trim ascii_toLowerCase 1700000000001 ex_edit None None
                    ex_state))
     \<noteq> allWords ex_state \<and>
   map meaning
     (allWords (snd (onSaveCustomWord ascii_trim ascii_toLowerCase 1700000000001 ex_edit None None
                       ex_state)))
     = [''m1'', ''m2'', ''fruit'', ''m4'', ''m5'']"
  by code_simp

text \<open>
  Claim C5, amended. Whenever \<open>onSaveCustomWord\<close> is called to add a word (the data
  carries no id, or a falsy one) with a term whose trimmed form equals, up to case, the
  term of a word of the catalog (custom or built-in), it returns \<open>false\<close> and leaves the
  catalog, and the rest of the state, unchanged. Trimming and lowering are the platform's
  own functions, whatever they do to a string: the statement holds for every \<open>trim\<close> and
  every \<open>toLowerCase\<close>.
\<close>

theorem onSaveCustomWord_rejects_duplicate_term:
  assumes "\<not> id_truthy (id_d wordData)"
    and "term_d wordData = Some t"
    and "w \<in> set (allWords st)"
    and "toLowerCase (term_w w) = toLowerCase (trim t)"
  shows "onSaveCustomWord trim toLowerCase dateNow wordData gradeLevelForNew unitNumber st
           = (False, st)"
proof -
  have "find (\<lambda>w. toLowerCase (term_w w) = toLowerCase (trim t)) (allWords st) \<noteq> None"
    using assms(3,4) by (auto simp: find_None_iff)
  then obtain e where
    f: "find (\<lambda>w. toLowerCase (term_w w) = toLowerCase (trim t)) (allWords st) = Some e"
    by blast
  show ?thesis
    unfolding onSaveCustomWord_def Let_def
    by (simp only: if_False assms(1) assms(2) option.sel f option.case if_cancel)
qed

theorem onSaveCustomWord_rejects_duplicate_term_witness:
  "\<not> id_truthy (id_d ex_data) \<and>
   term_d ex_data = Some '' Apple '' \<and>
   mk_word (NumId 1) ''apple'' ''m1'' ''middle1'' None \<in> set (allWords ex_state) \<and>
   ascii_toLowerCase (term_w (mk_word (NumId 1) ''apple'' ''m1'' ''middle1'' None))
     = ascii_toLowerCase (ascii_trim '' Apple '') \<and>
   onSaveCustomWord ascii_trim ascii_toLowerCase 1700000000001 ex_data None None ex_state
     = (False, ex_state)"
proof -
  have h1: "\<not> id_truthy (id_d ex_data)" by (simp add: ex_data_def)
  have h2: "term_d ex_data = Some '' Apple ''" by (simp add: ex_data_def)
  have h3: "mk_word (NumId 1) ''apple'' ''m1'' ''middle1'' None \<in> set (allWords ex_state)"
    by (simp add: ex_state_def ex_words_def)
  have h4: "ascii_toLowerCase (term_w (mk_word (NumId 1) ''apple'' ''m1'' ''middle1'' None))
     = ascii_toLowerCase (ascii_trim '' Apple '')"
    by code_simp
  from onSaveCustomWord_rejects_duplicate_term
         [where trim = ascii_trim and toLowerCase = ascii_toLowerCase, OF h1 h2 h3 h4]
       h1 h2 h3 h4
  show ?thesis by (intro conjI)
qed

section \<open>Properties of the quiz options\<close>

lemma new_Set_aux:
  "distinct acc \<Longrightarrow>
   distinct (foldl Set_add acc xs) \<and> set (foldl Set_add acc xs) = set acc \<union> set xs"
  by (induction xs arbitrary: acc) (auto simp: Set_add_def)

lemma distinct_new_Set: "distinct (new_Set xs)"
  using new_Set_aux [of "[]" xs] by (simp add: new_Set_def)

lemma set_new_Set: "set (new_Set xs) = set xs"
  using new_Set_aux [of "[]" xs] by (simp add: new_Set_def)

lemma fallback_loop_stop:
  "\<not> (length u < 3 \<and> length gw > length u + 1) \<Longrightarrow> fallback_loop gw cw g u = (u, g)"
  by (subst fallback_loop.simps) (simp only: if_False)

lemma fallback_loop_step:
  "length u < 3 \<and> length gw > length u + 1 \<Longrightarrow>
   fallback_loop gw cw g u =
     (case shuffleArray g
             (filter (\<lambda>w. id_w w \<noteq> id_w cw \<and> meaning w \<notin> set u \<and> meaning w \<noteq> meaning cw) gw) of
        (shuffled, g') \<Rightarrow>
          (case shuffled of
             [] \<Rightarrow> (u, g')
           | w # rest \<Rightarrow>
               if meaning w \<noteq> [] \<and> meaning w \<notin> set u
               then fallback_loop gw cw g' (u @ [meaning w])
               else (u, g')))"
  by (subst fallback_loop.simps) simp

lemma fallback_loop_inv:
  "distinct u \<and> meaning cw \<notin> set u \<and> length u \<le> 3 \<Longrightarrow>
   distinct (fst (fallback_loop gw cw g u)) \<and> meaning cw \<notin> set (fst (fallback_loop gw cw g u))
     \<and> length (fst (fallback_loop gw cw g u)) \<le> 3"
proof (induction gw cw g u rule: fallback_loop.induct)
  case (1 gw cw g u)
  show ?case
  proof (cases "length u < 3 \<and> length gw > length u + 1")
    case False
    from fallback_loop_stop [OF False] "1.prems" show ?thesis by simp
  next
    case True
    let ?f = "filter (\<lambda>w. id_w w \<noteq> id_w cw \<and> meaning w \<notin> set u \<and> meaning w \<noteq> meaning cw) gw"
    obtain sh g' where sh: "shuffleArray g ?f = (sh, g')" by (cases "shuffleArray g ?f")
    have mem: "set sh = set ?f" using shuffleArray_set [of g ?f] sh by simp
    show ?thesis
    proof (cases sh)
      case Nil
      then show ?thesis using sh "1.prems" by (simp add: fallback_loop_step [OF True])
    next
      case (Cons w rest)
      then have "w \<in> set sh" by simp
      then have "w \<in> set ?f" unfolding mem .
      then have wm: "meaning w \<noteq> meaning cw" by simp
      show ?thesis
      proof (cases "meaning w \<noteq> [] \<and> meaning w \<notin> set u")
        case False
        then show ?thesis using sh Cons "1.prems" by (auto simp add: fallback_loop_step [OF True])
      next
        case t: True
        have "distinct (u @ [meaning w]) \<and> meaning cw \<notin> set (u @ [meaning w]) \<and> length (u @ [meaning w]) \<le> 3"
          using "1.prems" t wm True by auto
        from "1.IH" [OF True sh [symmetric] Cons t this]
        show ?thesis using sh Cons t by (simp add: fallback_loop_step [OF True])
      qed
    qed
  qed
qed

lemma placeholder_loop_inv:
  "distinct u \<and> cm \<notin> set u \<and> length u \<le> 3 \<Longrightarrow>
   distinct (placeholder_loop cm ps u) \<and> cm \<notin> set (placeholder_loop cm ps u)
     \<and> length (placeholder_loop cm ps u) \<le> 3"
  by (induction cm ps u rule: placeholder_loop.induct) (auto simp: Let_def)

lemma placeholder_loop_full:
  "length u = 3 \<Longrightarrow> placeholder_loop cm ps u = u"
  by (cases ps) simp_all

lemma slice0_3: "slice0 3 xs = take 3 xs"
  by (simp add: slice0_def)

lemma count_list_mset: "mset xs = mset ys \<Longrightarrow> count_list xs a = count_list ys a"
  by (metis count_mset)

text \<open>The options before the last shuffle, and what holds of them.\<close>

lemma options_shape:
  assumes "distinct u" "cm \<notin> set u" "length u \<le> 3"
  shows "count_list (fst (shuffleArray g (cm # slice0 3 u))) cm = 1"
    and "distinct (fst (shuffleArray g (cm # slice0 3 u)))"
    and "length (fst (shuffleArray g (cm # slice0 3 u))) = Suc (length u)"
proof -
  have s: "slice0 3 u = u" using assms(3) by (simp add: slice0_3)
  have "count_list (fst (shuffleArray g (cm # u))) cm = count_list (cm # u) cm"
    by (rule count_list_mset) (rule shuffleArray_mset)
  also have "\<dots> = 1" using assms(2) by (simp add: count_list_0_iff)
  finally show "count_list (fst (shuffleArray g (cm # slice0 3 u))) cm = 1" using s by simp
  show "distinct (fst (shuffleArray g (cm # slice0 3 u)))"
    using assms s by (simp add: shuffleArray_distinct)
  show "length (fst (shuffleArray g (cm # slice0 3 u))) = Suc (length u)"
    using s by (simp add: shuffleArray_length)
qed

text \<open>The list of incorrect options just before the final shuffle.\<close>

lemma generate_unfold:
  "\<exists>u g2. distinct u \<and> meaning cw \<notin> set u \<and> length u \<le> 3 \<and>
      (3 \<le> card (set (filter (\<lambda>m. m \<noteq> meaning cw)
                (map meaning (filter (\<lambda>w. id_w w \<noteq> id_w cw)
                   (filter (\<lambda>w. gradeLevel w = gr) words))))) \<longrightarrow> length u = 3) \<and>
      generateMultipleChoiceOptions words gr g cw = shuffleArray g2 (meaning cw # slice0 3 u)"
proof -
  let ?gw = "filter (\<lambda>w. gradeLevel w = gr) words"
  let ?pool = "filter (\<lambda>m. m \<noteq> meaning cw) (map meaning (filter (\<lambda>w. id_w w \<noteq> id_w cw) ?gw))"
  obtain p g1 where p: "shuffleArray g ?pool = (p, g1)" by (cases "shuffleArray g ?pool")
  have sp: "set p = set ?pool" using shuffleArray_set [of g ?pool] p by simp
  let ?u0 = "slice0 3 (new_Set p)"
  have u0: "distinct ?u0 \<and> meaning cw \<notin> set ?u0 \<and> length ?u0 \<le> 3"
  proof -
    have "meaning cw \<notin> set (new_Set p)" using sp by (simp add: set_new_Set)
    then have "meaning cw \<notin> set (take 3 (new_Set p))" by (auto dest: in_set_takeD)
    then show ?thesis by (simp add: slice0_3 distinct_new_Set)
  qed
  have len: "length (new_Set p) = card (set ?pool)"
    using distinct_card [OF distinct_new_Set, of p] sp by (simp add: set_new_Set)
  obtain u1 g2 where f: "fallback_loop ?gw cw g1 ?u0 = (u1, g2)"
    by (cases "fallback_loop ?gw cw g1 ?u0")
  have u1: "distinct u1 \<and> meaning cw \<notin> set u1 \<and> length u1 \<le> 3"
    using fallback_loop_inv [OF u0, of ?gw g1] f by simp
  let ?u2 = "placeholder_loop (meaning cw) placeholders u1"
  have u2: "distinct ?u2 \<and> meaning cw \<notin> set ?u2 \<and> length ?u2 \<le> 3"
    by (rule placeholder_loop_inv [OF u1])
  have rich: "length ?u2 = 3" if "3 \<le> card (set ?pool)"
  proof -
    from that len have l0: "length ?u0 = 3" by (simp add: slice0_3)
    then have "fallback_loop ?gw cw g1 ?u0 = (?u0, g1)" by (intro fallback_loop_stop) simp
    with f have "u1 = ?u0" by simp
    with l0 show ?thesis by (simp add: placeholder_loop_full)
  qed
  have "generateMultipleChoiceOptions words gr g cw = shuffleArray g2 (meaning cw # slice0 3 ?u2)"
    using p f by (simp add: generateMultipleChoiceOptions_def Let_def)
  with u2 rich show ?thesis by blast
qed

text \<open>
  Claim C9. For every catalog, grade, correct word and run of the random source, the
  option list contains the correct word's meaning exactly once and has between \<open>1\<close> and
  \<open>4\<close> entries.
\<close>

theorem generateMultipleChoiceOptions_contains_correct_once:
  "count_list (fst (generateMultipleChoiceOptions words gr g correctWord)) (meaning correctWord) = 1 \<and>
   1 \<le> length (fst (generateMultipleChoiceOptions words gr g correctWord)) \<and>
   length (fst (generateMultipleChoiceOptions words gr g correctWord)) \<le> 4"
proof -
  obtain u g2 where u: "distinct u" "meaning correctWord \<notin> set u" "length u \<le> 3"
    and e: "generateMultipleChoiceOptions words gr g correctWord
              = shuffleArray g2 (meaning correctWord # slice0 3 u)"
    using generate_unfold [of correctWord gr words g] by blast
  from options_shape [OF u, of g2] u(3) show ?thesis unfolding e by simp
qed

theorem generateMultipleChoiceOptions_contains_correct_once_witness:
  "length (fst (generateMultipleChoiceOptions [] ''g'' [] ex_placeholder_word)) = 3 \<and>
   count_list (fst (generateMultipleChoiceOptions [] ''g'' [] ex_placeholder_word))
     (meaning ex_placeholder_word) = 1 \<and>
   1 \<le> length (fst (generateMultipleChoiceOptions [] ''g'' [] ex_placeholder_word)) \<and>
   length (fst (generateMultipleChoiceOptions [] ''g'' [] ex_placeholder_word)) \<le> 4"
proof -
  have l: "length (fst (generateMultipleChoiceOptions [] ''g'' [] ex_placeholder_word)) = 3"
    by code_simp
  from generateMultipleChoiceOptions_contains_correct_once [of "[]" "''g''" "[]" ex_placeholder_word] l
  show ?thesis by (intro conjI) simp_all
qed

lemma rich_pool:
  assumes ids: "distinct (map id_w words)"
    and cw: "cw \<in> set words"
    and ws: "set ws \<subseteq> {w \<in> set words. gradeLevel w = gr}"
    and dm: "distinct (map meaning ws)"
    and four: "4 \<le> length ws"
  shows "3 \<le> card (set (filter (\<lambda>m. m \<noteq> meaning cw)
                (map meaning (filter (\<lambda>w. id_w w \<noteq> id_w cw)
                   (filter (\<lambda>w. gradeLevel w = gr) words)))))"
proof -
  let ?pool = "set (filter (\<lambda>m. m \<noteq> meaning cw)
                (map meaning (filter (\<lambda>w. id_w w \<noteq> id_w cw)
                   (filter (\<lambda>w. gradeLevel w = gr) words))))"
  let ?M = "meaning ` set ws"
  have inj: "inj_on id_w (set words)" using ids by (simp add: distinct_map)
  have sub: "?M - {meaning cw} \<subseteq> ?pool"
  proof
    fix m assume "m \<in> ?M - {meaning cw}"
    then obtain w where w: "w \<in> set ws" "m = meaning w" "meaning w \<noteq> meaning cw" by auto
    then have ww: "w \<in> set words" "gradeLevel w = gr" using ws by auto
    have "w \<noteq> cw" using w(3) by auto
    then have "id_w w \<noteq> id_w cw" using inj ww(1) cw by (auto dest: inj_onD)
    then show "m \<in> ?pool" using w ww by auto
  qed
  have "card ?M = length ws" using dm by (metis distinct_card length_map set_map)
  then have "4 \<le> card ?M" using four by simp
  moreover have "card ?M - 1 \<le> card (?M - {meaning cw})"
    by (simp add: card_Diff_singleton_if)
  ultimately have "3 \<le> card (?M - {meaning cw})" by linarith
  also have "\<dots> \<le> card ?pool" by (rule card_mono [OF _ sub]) simp
  finally show ?thesis .
qed

text \<open>
  Claim C6. Let the ids of the catalog be unique, as the data model has them, and let the
  requested grade hold at least four words with pairwise distinct meanings. Then for
  every correct word of that grade the option list has exactly \<open>4\<close> strings, exactly one of
  them the correct word's meaning, and no string twice.
\<close>

theorem generateMultipleChoiceOptions_four_options:
  assumes "distinct (map id_w words)"
    and "correctWord \<in> set words"
    and "gradeLevel correctWord = gr"
    and "set ws \<subseteq> {w \<in> set words. gradeLevel w = gr}"
    and "distinct (map meaning ws)"
    and "4 \<le> length ws"
  shows "length (fst (generateMultipleChoiceOptions words gr g correctWord)) = 4 \<and>
         count_list (fst (generateMultipleChoiceOptions words gr g correctWord)) (meaning correctWord) = 1 \<and>
         distinct (fst (generateMultipleChoiceOptions words gr g correctWord))"
proof -
  note r = rich_pool [OF assms(1,2,4,5,6)]
  obtain u g2 where u: "distinct u" "meaning correctWord \<notin> set u" "length u \<le> 3"
    and l: "length u = 3"
    and e: "generateMultipleChoiceOptions words gr g correctWord
              = shuffleArray g2 (meaning correctWord # slice0 3 u)"
    using generate_unfold [of correctWord gr words g] r by blast
  from options_shape [OF u, of g2] l show ?thesis unfolding e by simp
qed

theorem generateMultipleChoiceOptions_four_options_witness:
  "distinct (map id_w ex_words) \<and>
   ex_words ! 0 \<in> set ex_words \<and>
   gradeLevel (ex_words ! 0) = ''middle1'' \<and>
   set (take 4 ex_words) \<subseteq> {w \<in> set ex_words. gradeLevel w = ''middle1''} \<and>
   distinct (map meaning (take 4 ex_words)) \<and>
   4 \<le> length (take 4 ex_words) \<and>
   fst (generateMultipleChoiceOptions ex_words ''middle1'' [1, 2, 0, 3, 1, 0] (ex_words ! 0))
     = [''m2'', ''m4'', ''m3'', ''m1''] \<and>
   length (fst (generateMultipleChoiceOptions ex_words ''middle1'' [1, 2, 0, 3, 1, 0] (ex_words ! 0)))
     = 4 \<and>
   count_list
     (fst (generateMultipleChoiceOptions ex_words ''middle1'' [1, 2, 0, 3, 1, 0] (ex_words ! 0)))
     (meaning (ex_words ! 0)) = 1"
proof -
  have h1: "distinct (map id_w ex_words)" by code_simp
  have h2: "ex_words ! 0 \<in> set ex_words" by (simp add: ex_words_def)
  have h3: "gradeLevel (ex_words ! 0) = ''middle1''" by (simp add: ex_words_def mk_word_def)
  have h4: "set (take 4 ex_words) \<subseteq> {w \<in> set ex_words. gradeLevel w = ''middle1''}"
    by (simp add: ex_words_def mk_word_def)
  have h5: "distinct (map meaning (take 4 ex_words))" by code_simp
  have h6: "4 \<le> length (take 4 ex_words)" by (simp add: ex_words_def)
  have v: "fst (generateMultipleChoiceOptions ex_words ''middle1'' [1, 2, 0, 3, 1, 0] (ex_words ! 0))
     = [''m2'', ''m4'', ''m3'', ''m1'']"
    by code_simp
  from generateMultipleChoiceOptions_four_options [OF h1 h2 h3 h4 h5 h6, of "[1, 2, 0, 3, 1, 0]"]
  have "length (fst (generateMultipleChoiceOptions ex_words ''middle1'' [1, 2, 0, 3, 1, 0]
            (ex_words ! 0))) = 4"
    and "count_list
     (fst (generateMultipleChoiceOptions ex_words ''middle1'' [1, 2, 0, 3, 1, 0] (ex_words ! 0)))
     (meaning (ex_words ! 0)) = 1"
    by blast+
  with h1 h2 h3 h4 h5 h6 v show ?thesis by (intro conjI)
qed

text \<open>
  The uniqueness of ids is used: the pool of wrong meanings leaves out every word that
  shares the correct word's id. In the catalog \<open>ex_shared_id_words\<close> four words with
  distinct meanings share one id and the correct meaning is the first placeholder; only two
  placeholders are left to fill in, and the question gets three options.
\<close>

lemma generateMultipleChoiceOptions_shared_ids:
  "distinct (map meaning ex_shared_id_words) \<and>
   length (fst (generateMultipleChoiceOptions ex_shared_id_words ''g'' [] ex_placeholder_word)) = 3"
  by code_simp

end
